theory Spec2Isabelle
  imports Complex_Main "HOL-Library.Word"
begin

section \<open>Radio driver: data model (vendor/radio\_driver.h)\<close>

text \<open>
  The simulated radio transceiver driver of \<^verbatim>\<open>vendor/radio_driver.c\<close> is embedded
  function by function. The C integer types are words of the same width; the enums are
  datatypes whose first constructor is the enumerator with value 0 (what \<^verbatim>\<open>memset\<close> to
  zero produces). Pointer arguments that the code tests against \<^verbatim>\<open>NULL\<close> are options
  (input structures) or booleans (output locations: \<open>True\<close> for a non-null pointer).
\<close>

type_synonym u8 = "8 word"
type_synonym u16 = "16 word"
type_synonym u32 = "32 word"

definition RADIO_MAX_PAYLOAD_SIZE :: nat where "RADIO_MAX_PAYLOAD_SIZE = 246"
definition RADIO_MAX_RETRIES :: nat where "RADIO_MAX_RETRIES = 5"
definition RADIO_MAX_CHANNELS :: nat where "RADIO_MAX_CHANNELS = 125"
definition RADIO_RSSI_MIN :: int where "RADIO_RSSI_MIN = - 120"
definition RADIO_RSSI_MAX :: int where "RADIO_RSSI_MAX = - 30"
definition RADIO_ADDRESS_SIZE :: nat where "RADIO_ADDRESS_SIZE = 8"
definition RADIO_NETWORK_KEY_SIZE :: nat where "RADIO_NETWORK_KEY_SIZE = 16"

datatype radio_power_state =
  RADIO_POWER_OFF | RADIO_POWER_SLEEP | RADIO_POWER_STANDBY
  | RADIO_POWER_IDLE | RADIO_POWER_RX | RADIO_POWER_TX

datatype radio_tx_power =
  RADIO_TX_POWER_MIN | RADIO_TX_POWER_LOW | RADIO_TX_POWER_MEDIUM
  | RADIO_TX_POWER_HIGH | RADIO_TX_POWER_MAX

datatype radio_data_rate =
  RADIO_DATA_RATE_1K | RADIO_DATA_RATE_10K | RADIO_DATA_RATE_50K
  | RADIO_DATA_RATE_100K | RADIO_DATA_RATE_250K

datatype radio_modulation =
  RADIO_MODULATION_FSK | RADIO_MODULATION_GFSK | RADIO_MODULATION_LORA
  | RADIO_MODULATION_OOK

datatype radio_error =
  RADIO_OK | RADIO_ERROR_INIT | RADIO_ERROR_CONFIG | RADIO_ERROR_TIMEOUT
  | RADIO_ERROR_NO_ACK | RADIO_ERROR_CRC | RADIO_ERROR_INVALID_PARAM
  | RADIO_ERROR_BUFFER_FULL | RADIO_ERROR_BUFFER_EMPTY | RADIO_ERROR_CHANNEL_BUSY
  | RADIO_ERROR_POWER_FAILURE | RADIO_ERROR_HARDWARE | RADIO_ERROR_NOT_CONNECTED
  | RADIO_ERROR_ENCRYPTION | RADIO_ERROR_PACKET_TOO_LARGE | RADIO_ERROR_NETWORK_FULL
  | RADIO_ERROR_RATE_LIMITED

datatype radio_packet_priority =
  RADIO_PRIORITY_LOW | RADIO_PRIORITY_NORMAL | RADIO_PRIORITY_HIGH
  | RADIO_PRIORITY_CRITICAL

datatype radio_security_mode =
  RADIO_SECURITY_NONE | RADIO_SECURITY_WEP | RADIO_SECURITY_WPA
  | RADIO_SECURITY_AES128 | RADIO_SECURITY_AES256

record radio_config =
  frequency_hz :: u32
  channel :: u8
  tx_power :: radio_tx_power
  data_rate :: radio_data_rate
  modulation :: radio_modulation
  security :: radio_security_mode
  network_key :: "u8 list"
  device_address :: "u8 list"
  cfg_network_id :: u16
  auto_ack :: bool
  auto_retry :: bool
  max_retries :: u8
  tx_timeout_ms :: u32

record radio_packet =
  destination :: "u8 list"
  source :: "u8 list"
  packet_id :: u16
  priority :: radio_packet_priority
  payload_size :: u8
  payload :: "u8 list"
  timestamp :: u32
  require_ack :: bool
  retry_count :: u8

record radio_stats =
  packets_sent :: u32
  packets_received :: u32
  packets_lost :: u32
  retries_attempted :: u32
  crc_errors :: u32
  timeouts :: u32
  last_rssi :: u8
  channel_utilization :: u8
  total_airtime_ms :: u32
  power_consumption_mw :: u32

record radio_network_info =
  network_id :: u16
  connected_devices :: u8
  signal_strength :: u8
  link_quality :: u8
  uptime_seconds :: u32
  is_gateway :: bool
  hop_count :: u8

text \<open>
  The two \<^verbatim>\<open>int8_t\<close> fields (\<open>last_rssi\<close>, \<open>signal_strength\<close>) are 8-bit words read with
  \<open>sint\<close>. The field \<^verbatim>\<open>network_id\<close> of \<^verbatim>\<open>radio_config_t\<close> is named \<open>cfg_network_id\<close>,
  since a record field name is global in HOL and \<^verbatim>\<open>radio_network_info_t\<close> has one too.
\<close>

section \<open>Airtime and power models\<close>

text \<open>
  \<^verbatim>\<open>radio_calculate_airtime\<close>: \<^verbatim>\<open>payload_size + 16\<close> is computed in \<^verbatim>\<open>int\<close> (integer
  promotion of the \<^verbatim>\<open>uint8_t\<close>) and stored in a \<^verbatim>\<open>uint32_t\<close>; every later operation is
  32-bit unsigned arithmetic, which wraps. The \<^verbatim>\<open>default\<close> branch of the switch on the
  data rate is for values outside the enum, which the datatype does not have.
\<close>

definition bps_of :: "radio_data_rate \<Rightarrow> u32" where
  "bps_of rate =
     (case rate of
        RADIO_DATA_RATE_1K \<Rightarrow> 1000
      | RADIO_DATA_RATE_10K \<Rightarrow> 10000
      | RADIO_DATA_RATE_50K \<Rightarrow> 50000
      | RADIO_DATA_RATE_100K \<Rightarrow> 100000
      | RADIO_DATA_RATE_250K \<Rightarrow> 250000)"

definition apply_modulation :: "radio_modulation \<Rightarrow> u32 \<Rightarrow> u32" where
  "apply_modulation modul total_bits =
     (case modul of
        RADIO_MODULATION_FSK \<Rightarrow> total_bits
      | RADIO_MODULATION_GFSK \<Rightarrow> (total_bits * 9) div 10
      | RADIO_MODULATION_LORA \<Rightarrow> (total_bits * 3) div 2
      | RADIO_MODULATION_OOK \<Rightarrow> total_bits * 2)"

definition radio_calculate_airtime :: "u8 \<Rightarrow> radio_data_rate \<Rightarrow> radio_modulation \<Rightarrow> u32" where
  "radio_calculate_airtime psize rate modul =
     (let bps = bps_of rate;
          total_bits = (of_nat ((unat psize + 16) * 8) :: u32);
          total_bits = apply_modulation modul total_bits
      in (total_bits * 1000000) div bps)"

definition current_ma_of :: "radio_power_state \<Rightarrow> u32" where
  "current_ma_of ps =
     (case ps of
        RADIO_POWER_OFF \<Rightarrow> 0
      | RADIO_POWER_SLEEP \<Rightarrow> 1
      | RADIO_POWER_STANDBY \<Rightarrow> 5
      | RADIO_POWER_IDLE \<Rightarrow> 10
      | RADIO_POWER_RX \<Rightarrow> 20
      | RADIO_POWER_TX \<Rightarrow> 50)"

definition radio_estimate_power_consumption :: "radio_power_state \<Rightarrow> u32 \<Rightarrow> u32" where
  "radio_estimate_power_consumption ps duration_ms =
     (current_ma_of ps * 1000 * duration_ms) div 3600000"

section \<open>Driver state and its environment\<close>

text \<open>
  \<^verbatim>\<open>radio_state_t\<close> is the record \<open>radio_state\<close>. A callback is the address of the
  registered function (\<open>None\<close> for \<^verbatim>\<open>NULL\<close>), a user-data pointer is an address.

  The driver is a simulation: it draws from \<^verbatim>\<open>rand()\<close> and reads \<^verbatim>\<open>clock()\<close>. Both are
  inputs of the model. A \<open>machine\<close> holds the global \<^verbatim>\<open>g_radio\<close>, the sequence of values
  that the successive calls of \<^verbatim>\<open>rand()\<close> return with the number of calls made so far,
  the same for the millisecond clock, and the list of invocations of the receive
  callback (callback, packet passed, user data). Theorems quantify over both sequences,
  so they hold whatever \<^verbatim>\<open>srand\<close> seeded. The receive callback is taken not to call back
  into the driver.
\<close>

record radio_state =
  initialized :: bool
  config :: radio_config
  power_state :: radio_power_state
  stats :: radio_stats
  network_info :: radio_network_info
  connected_to_network :: bool
  rx_callback :: "nat option"
  rx_user_data :: nat
  event_callback :: "nat option"
  event_user_data :: nat
  next_tx_id :: u16
  last_activity_time :: u32
  rx_buffer_count :: u8
  rx_buffer :: "radio_packet list"
  rx_buffer_head :: u8
  rx_buffer_tail :: u8

record machine =
  g_radio :: radio_state
  rand_src :: "nat \<Rightarrow> nat"
  rand_pos :: nat
  clock_src :: "nat \<Rightarrow> u32"
  clock_pos :: nat
  rx_calls :: "(nat \<times> radio_packet \<times> nat) list"

text \<open>The all-zero values of the structures: \<^verbatim>\<open>g_radio = {0}\<close> and \<^verbatim>\<open>memset(.., 0, ..)\<close>.\<close>

definition zero_config :: radio_config where
  "zero_config =
     \<lparr>frequency_hz = 0, channel = 0, tx_power = RADIO_TX_POWER_MIN,
      data_rate = RADIO_DATA_RATE_1K, modulation = RADIO_MODULATION_FSK,
      security = RADIO_SECURITY_NONE,
      network_key = replicate RADIO_NETWORK_KEY_SIZE 0,
      device_address = replicate RADIO_ADDRESS_SIZE 0,
      cfg_network_id = 0, auto_ack = False, auto_retry = False, max_retries = 0,
      tx_timeout_ms = 0\<rparr>"

definition zero_packet :: radio_packet where
  "zero_packet =
     \<lparr>destination = replicate RADIO_ADDRESS_SIZE 0, source = replicate RADIO_ADDRESS_SIZE 0,
      packet_id = 0, priority = RADIO_PRIORITY_LOW, payload_size = 0,
      payload = replicate RADIO_MAX_PAYLOAD_SIZE 0, timestamp = 0, require_ack = False,
      retry_count = 0\<rparr>"

definition zero_stats :: radio_stats where
  "zero_stats =
     \<lparr>packets_sent = 0, packets_received = 0, packets_lost = 0, retries_attempted = 0,
      crc_errors = 0, timeouts = 0, last_rssi = 0, channel_utilization = 0,
      total_airtime_ms = 0, power_consumption_mw = 0\<rparr>"

definition zero_network_info :: radio_network_info where
  "zero_network_info =
     \<lparr>network_id = 0, connected_devices = 0, signal_strength = 0, link_quality = 0,
      uptime_seconds = 0, is_gateway = False, hop_count = 0\<rparr>"

definition zero_radio :: radio_state where
  "zero_radio =
     \<lparr>initialized = False, config = zero_config, power_state = RADIO_POWER_OFF,
      stats = zero_stats, network_info = zero_network_info,
      connected_to_network = False, rx_callback = None, rx_user_data = 0,
      event_callback = None, event_user_data = 0, next_tx_id = 0,
      last_activity_time = 0, rx_buffer_count = 0, rx_buffer = replicate 32 zero_packet,
      rx_buffer_head = 0, rx_buffer_tail = 0\<rparr>"

definition boot :: "(nat \<Rightarrow> nat) \<Rightarrow> (nat \<Rightarrow> u32) \<Rightarrow> machine" where
  "boot rs cs =
     \<lparr>g_radio = zero_radio, rand_src = rs, rand_pos = 0, clock_src = cs, clock_pos = 0,
      rx_calls = []\<rparr>"

section \<open>Helper functions\<close>

definition rand :: "machine \<Rightarrow> nat \<times> machine" where
  "rand m = (rand_src m (rand_pos m), m\<lparr>rand_pos := Suc (rand_pos m)\<rparr>)"

definition get_current_time_ms :: "machine \<Rightarrow> u32 \<times> machine" where
  "get_current_time_ms m = (clock_src m (clock_pos m), m\<lparr>clock_pos := Suc (clock_pos m)\<rparr>)"

definition simulate_rssi :: "machine \<Rightarrow> u8 \<times> machine" where
  "simulate_rssi m =
     (let base_rssi = (- 70 :: int);
          (r, m1) = rand m;
          variation = int (r mod 20) - 10;
          rssi = (of_int (base_rssi + variation) :: u8);
          rssi = (if sint rssi < RADIO_RSSI_MIN then of_int RADIO_RSSI_MIN else rssi);
          rssi = (if sint rssi > RADIO_RSSI_MAX then of_int RADIO_RSSI_MAX else rssi)
      in (rssi, m1))"

definition simulate_channel_utilization :: "machine \<Rightarrow> u8 \<times> machine" where
  "simulate_channel_utilization m =
     (let (r, m1) = rand m in (of_nat (r mod 30 + 10), m1))"

definition validate_config :: "radio_config option \<Rightarrow> bool" where
  "validate_config cfg =
     (case cfg of
        None \<Rightarrow> False
      | Some c \<Rightarrow>
          if unat (channel c) \<ge> RADIO_MAX_CHANNELS then False
          else if unat (max_retries c) > RADIO_MAX_RETRIES then False
          else if tx_timeout_ms c = 0 then False
          else True)"

text \<open>\<open>rand_bytes n\<close>: \<open>n\<close> successive values \<^verbatim>\<open>rand() % 256\<close>, as the two filling loops draw them.\<close>

fun rand_bytes :: "nat \<Rightarrow> machine \<Rightarrow> u8 list \<times> machine" where
  "rand_bytes 0 m = ([], m)"
| "rand_bytes (Suc n) m =
     (let (r, m1) = rand m;
          (bs, m2) = rand_bytes n m1
      in (of_nat (r mod 256) # bs, m2))"

text \<open>
  \<^verbatim>\<open>simulate_packet_reception\<close>, the arrival of a packet. The packet is written in place
  into the slot \<^verbatim>\<open>rx_buffer[rx_buffer_head]\<close>: the payload bytes beyond the new
  \<^verbatim>\<open>payload_size\<close> keep what the slot held. \<^verbatim>\<open>(rx_buffer_head + 1) % 32\<close> is computed in
  \<^verbatim>\<open>int\<close> and stored in the \<^verbatim>\<open>uint8_t\<close>. The slot index is below 32 in every reachable
  state (\<open>rx_inv\<close> below), so the list update and lookup stay in range.
\<close>

definition simulate_packet_reception :: "machine \<Rightarrow> machine" where
  "simulate_packet_reception m =
     (let g = g_radio m in
      if power_state g \<noteq> RADIO_POWER_RX \<and> power_state g \<noteq> RADIO_POWER_IDLE then m
      else
        let (r, m1) = rand m in
        if r mod 100 < 5 then
          if rx_buffer_count g < 32 then
            let slot = unat (rx_buffer_head g);
                old = rx_buffer g ! slot;
                (src, m2) = rand_bytes RADIO_ADDRESS_SIZE m1;
                (rid, m3) = rand m2;
                (rsz, m4) = rand m3;
                psize = (of_nat (rsz mod 100 + 1) :: u8);
                (bytes, m5) = rand_bytes (unat psize) m4;
                (now, m6) = get_current_time_ms m5;
                pkt = \<lparr>destination = take RADIO_ADDRESS_SIZE (device_address (config g)),
                       source = src, packet_id = of_nat (rid mod 65536),
                       priority = RADIO_PRIORITY_NORMAL, payload_size = psize,
                       payload = bytes @ drop (unat psize) (payload old),
                       timestamp = now, require_ack = False, retry_count = 0\<rparr>;
                g1 = g\<lparr>rx_buffer := (rx_buffer g)[slot := pkt],
                       rx_buffer_head := of_nat ((unat (rx_buffer_head g) + 1) mod 32),
                       rx_buffer_count := rx_buffer_count g + 1,
                       stats := (stats g)\<lparr>packets_received := packets_received (stats g) + 1\<rparr>\<rparr>
            in (case rx_callback g1 of
                  None \<Rightarrow> m6\<lparr>g_radio := g1\<rparr>
                | Some cb \<Rightarrow>
                    m6\<lparr>g_radio := g1, rx_calls := rx_calls m6 @ [(cb, pkt, rx_user_data g1)]\<rparr>)
          else m1
        else m1)"

section \<open>API: initialisation, configuration, power state\<close>

text \<open>
  Every API function returns the \<^verbatim>\<open>radio_error_t\<close> code, what it wrote through its
  output pointers (if anything), and the machine afterwards. \<^verbatim>\<open>srand(time(NULL))\<close> in
  \<^verbatim>\<open>radio_init\<close> has no counterpart: the sequence of \<^verbatim>\<open>rand()\<close> values is arbitrary.
\<close>

definition radio_init :: "radio_config option \<Rightarrow> machine \<Rightarrow> radio_error \<times> machine" where
  "radio_init cfg m =
     (case cfg of
        None \<Rightarrow> (RADIO_ERROR_INVALID_PARAM, m)
      | Some c \<Rightarrow>
          if \<not> validate_config cfg then (RADIO_ERROR_CONFIG, m)
          else
            let (now, m1) = get_current_time_ms m;
                (rssi1, m2) = simulate_rssi m1;
                (rssi2, m3) = simulate_rssi m2;
                g = zero_radio
                      \<lparr>config := c, initialized := True, power_state := RADIO_POWER_IDLE,
                       connected_to_network := False, next_tx_id := 1,
                       last_activity_time := now,
                       network_info :=
                         \<lparr>network_id = cfg_network_id c, connected_devices = 0,
                          signal_strength = rssi1, link_quality = 0, uptime_seconds = 0,
                          is_gateway = False, hop_count = 255\<rparr>,
                       stats := zero_stats\<lparr>last_rssi := rssi2\<rparr>\<rparr>
            in (RADIO_OK, m3\<lparr>g_radio := g\<rparr>))"

definition radio_configure :: "radio_config option \<Rightarrow> machine \<Rightarrow> radio_error \<times> machine" where
  "radio_configure cfg m =
     (let g = g_radio m in
      if \<not> initialized g then (RADIO_ERROR_INIT, m)
      else
        case cfg of
          None \<Rightarrow> (RADIO_ERROR_INVALID_PARAM, m)
        | Some c \<Rightarrow>
            if \<not> validate_config cfg then (RADIO_ERROR_CONFIG, m)
            else if power_state g \<noteq> RADIO_POWER_IDLE then (RADIO_ERROR_CONFIG, m)
            else (RADIO_OK, m\<lparr>g_radio := g\<lparr>config := c\<rparr>\<rparr>))"

text \<open>
  \<^verbatim>\<open>radio_set_power_state\<close> range-checks its enum argument, so the argument is the
  integer value passed; \<open>int_of_power_state\<close> gives the values of the six enumerators.
\<close>

definition int_of_power_state :: "radio_power_state \<Rightarrow> int" where
  "int_of_power_state ps =
     (case ps of
        RADIO_POWER_OFF \<Rightarrow> 0
      | RADIO_POWER_SLEEP \<Rightarrow> 1
      | RADIO_POWER_STANDBY \<Rightarrow> 2
      | RADIO_POWER_IDLE \<Rightarrow> 3
      | RADIO_POWER_RX \<Rightarrow> 4
      | RADIO_POWER_TX \<Rightarrow> 5)"

definition power_state_of_int :: "int \<Rightarrow> radio_power_state" where
  "power_state_of_int v =
     (if v = 0 then RADIO_POWER_OFF
      else if v = 1 then RADIO_POWER_SLEEP
      else if v = 2 then RADIO_POWER_STANDBY
      else if v = 3 then RADIO_POWER_IDLE
      else if v = 4 then RADIO_POWER_RX
      else RADIO_POWER_TX)"

definition radio_set_power_state :: "int \<Rightarrow> machine \<Rightarrow> radio_error \<times> machine" where
  "radio_set_power_state v m =
     (let g = g_radio m in
      if \<not> initialized g then (RADIO_ERROR_INIT, m)
      else if v < int_of_power_state RADIO_POWER_OFF \<or> v > int_of_power_state RADIO_POWER_TX
        then (RADIO_ERROR_INVALID_PARAM, m)
      else
        let ps = power_state_of_int v;
            switch =
              (case ps of
                 RADIO_POWER_OFF \<Rightarrow> Some (g\<lparr>connected_to_network := False\<rparr>)
               | RADIO_POWER_RX \<Rightarrow>
                   if power_state g = RADIO_POWER_OFF then None else Some g
               | RADIO_POWER_TX \<Rightarrow>
                   if power_state g = RADIO_POWER_OFF then None else Some g
               | _ \<Rightarrow> Some g)
        in case switch of
             None \<Rightarrow> (RADIO_ERROR_CONFIG, m)
           | Some g1 \<Rightarrow>
               let (now, m1) = get_current_time_ms m
               in (RADIO_OK,
                   m1\<lparr>g_radio := g1\<lparr>power_state := ps, last_activity_time := now\<rparr>\<rparr>))"

definition radio_get_power_state ::
  "bool \<Rightarrow> machine \<Rightarrow> radio_error \<times> radio_power_state option \<times> machine" where
  "radio_get_power_state out_ptr m =
     (let g = g_radio m in
      if \<not> initialized g then (RADIO_ERROR_INIT, None, m)
      else if \<not> out_ptr then (RADIO_ERROR_INVALID_PARAM, None, m)
      else (RADIO_OK, Some (power_state g), m))"

section \<open>API: transmit and receive\<close>

definition radio_send_packet :: "radio_packet option \<Rightarrow> machine \<Rightarrow> radio_error \<times> machine" where
  "radio_send_packet pkt m =
     (let g = g_radio m in
      if \<not> initialized g then (RADIO_ERROR_INIT, m)
      else
        case pkt of
          None \<Rightarrow> (RADIO_ERROR_INVALID_PARAM, m)
        | Some p \<Rightarrow>
            if unat (payload_size p) > RADIO_MAX_PAYLOAD_SIZE
              then (RADIO_ERROR_PACKET_TOO_LARGE, m)
            else if power_state g = RADIO_POWER_OFF then (RADIO_ERROR_POWER_FAILURE, m)
            else
              let (now, m1) = get_current_time_ms m;
                  g1 = g\<lparr>power_state := RADIO_POWER_TX, last_activity_time := now\<rparr>;
                  airtime = radio_calculate_airtime (payload_size p)
                              (data_rate (config g1)) (modulation (config g1));
                  g2 = g1\<lparr>stats := (stats g1)
                              \<lparr>packets_sent := packets_sent (stats g1) + 1,
                               total_airtime_ms :=
                                 total_airtime_ms (stats g1) + airtime div 1000\<rparr>\<rparr>;
                  (r, m2) = rand m1
              in if r mod 100 < 5 then
                   (RADIO_ERROR_NO_ACK,
                    m2\<lparr>g_radio :=
                         g2\<lparr>stats := (stats g2)\<lparr>packets_lost := packets_lost (stats g2) + 1\<rparr>,
                            power_state := RADIO_POWER_IDLE\<rparr>\<rparr>)
                 else (RADIO_OK, m2\<lparr>g_radio := g2\<lparr>power_state := RADIO_POWER_IDLE\<rparr>\<rparr>))"

definition radio_send_packet_async ::
  "radio_packet option \<Rightarrow> bool \<Rightarrow> machine \<Rightarrow> radio_error \<times> u16 option \<times> machine" where
  "radio_send_packet_async pkt tx_id_ptr m =
     (let g = g_radio m in
      if \<not> initialized g then (RADIO_ERROR_INIT, None, m)
      else
        case pkt of
          None \<Rightarrow> (RADIO_ERROR_INVALID_PARAM, None, m)
        | Some p \<Rightarrow>
            if \<not> tx_id_ptr then (RADIO_ERROR_INVALID_PARAM, None, m)
            else if unat (payload_size p) > RADIO_MAX_PAYLOAD_SIZE
              then (RADIO_ERROR_PACKET_TOO_LARGE, None, m)
            else if power_state g = RADIO_POWER_OFF
              then (RADIO_ERROR_POWER_FAILURE, None, m)
            else
              (RADIO_OK, Some (next_tx_id g),
               m\<lparr>g_radio :=
                    g\<lparr>next_tx_id := next_tx_id g + 1,
                      stats := (stats g)\<lparr>packets_sent := packets_sent (stats g) + 1\<rparr>\<rparr>\<rparr>))"

definition radio_get_tx_status ::
  "u16 \<Rightarrow> bool \<Rightarrow> machine \<Rightarrow> radio_error \<times> radio_error option \<times> machine" where
  "radio_get_tx_status tx_id status_ptr m =
     (let g = g_radio m in
      if \<not> initialized g then (RADIO_ERROR_INIT, None, m)
      else if \<not> status_ptr then (RADIO_ERROR_INVALID_PARAM, None, m)
      else (RADIO_OK, Some RADIO_OK, m))"

text \<open>The dequeue both branches of \<^verbatim>\<open>radio_receive_packet\<close> perform.\<close>

definition rx_dequeue :: "machine \<Rightarrow> radio_error \<times> radio_packet option \<times> machine" where
  "rx_dequeue m =
     (let g = g_radio m
      in (RADIO_OK, Some (rx_buffer g ! unat (rx_buffer_tail g)),
          m\<lparr>g_radio :=
               g\<lparr>rx_buffer_tail := of_nat ((unat (rx_buffer_tail g) + 1) mod 32),
                 rx_buffer_count := rx_buffer_count g - 1\<rparr>\<rparr>))"

definition radio_receive_packet ::
  "bool \<Rightarrow> u32 \<Rightarrow> machine \<Rightarrow> radio_error \<times> radio_packet option \<times> machine" where
  "radio_receive_packet packet_ptr timeout_ms m =
     (let g = g_radio m in
      if \<not> initialized g then (RADIO_ERROR_INIT, None, m)
      else if \<not> packet_ptr then (RADIO_ERROR_INVALID_PARAM, None, m)
      else if power_state g = RADIO_POWER_OFF then (RADIO_ERROR_POWER_FAILURE, None, m)
      else
        let m1 = simulate_packet_reception m in
        if rx_buffer_count (g_radio m1) > 0 then rx_dequeue m1
        else if timeout_ms = 0 then (RADIO_ERROR_BUFFER_EMPTY, None, m1)
        else if timeout_ms > 100 then
          let m2 = simulate_packet_reception m1 in
          if rx_buffer_count (g_radio m2) > 0 then rx_dequeue m2
          else (RADIO_ERROR_TIMEOUT, None, m2)
        else (RADIO_ERROR_TIMEOUT, None, m1))"

definition radio_set_rx_callback :: "nat option \<Rightarrow> nat \<Rightarrow> machine \<Rightarrow> radio_error \<times> machine" where
  "radio_set_rx_callback callback user_data m =
     (let g = g_radio m in
      if \<not> initialized g then (RADIO_ERROR_INIT, m)
      else (RADIO_OK, m\<lparr>g_radio := g\<lparr>rx_callback := callback, rx_user_data := user_data\<rparr>\<rparr>))"

definition radio_set_event_callback ::
  "nat option \<Rightarrow> nat \<Rightarrow> machine \<Rightarrow> radio_error \<times> machine" where
  "radio_set_event_callback callback user_data m =
     (let g = g_radio m in
      if \<not> initialized g then (RADIO_ERROR_INIT, m)
      else (RADIO_OK,
            m\<lparr>g_radio := g\<lparr>event_callback := callback, event_user_data := user_data\<rparr>\<rparr>))"

section \<open>API: network, telemetry, shutdown\<close>

text \<open>The loop of \<^verbatim>\<open>radio_scan_networks\<close>: \<open>k\<close> entries remain, the next has index \<open>i\<close>.\<close>

fun scan_entries :: "nat \<Rightarrow> nat \<Rightarrow> machine \<Rightarrow> radio_network_info list \<times> machine" where
  "scan_entries 0 i m = ([], m)"
| "scan_entries (Suc k) i m =
     (let (r1, m1) = rand m;
          (rssi, m2) = simulate_rssi m1;
          (r3, m3) = rand m2;
          (r4, m4) = rand m3;
          (r5, m5) = rand m4;
          e = \<lparr>network_id = of_nat (1000 + i), connected_devices = of_nat (r1 mod 10 + 1),
               signal_strength = rssi, link_quality = of_nat (r3 mod 50 + 50),
               uptime_seconds = of_nat (r4 mod 86400), is_gateway = (i = 0),
               hop_count = of_nat (r5 mod 5 + 1)\<rparr>;
          (es, m6) = scan_entries k (Suc i) m5
      in (e # es, m6))"

definition radio_scan_networks ::
  "bool \<Rightarrow> u8 \<Rightarrow> bool \<Rightarrow> u32 \<Rightarrow> machine
     \<Rightarrow> radio_error \<times> (radio_network_info list \<times> u8) option \<times> machine" where
  "radio_scan_networks networks_ptr max_networks found_count_ptr scan_time_ms m =
     (let g = g_radio m in
      if \<not> initialized g then (RADIO_ERROR_INIT, None, m)
      else if \<not> networks_ptr \<or> \<not> found_count_ptr then (RADIO_ERROR_INVALID_PARAM, None, m)
      else if power_state g = RADIO_POWER_OFF then (RADIO_ERROR_POWER_FAILURE, None, m)
      else
        let (r, m1) = rand m;
            num_networks = (of_nat (r mod 5 + 1) :: u8);
            num_networks = (if num_networks > max_networks then max_networks else num_networks);
            (es, m2) = scan_entries (unat num_networks) 0 m1
        in (RADIO_OK, Some (es, num_networks), m2))"

definition radio_join_network ::
  "u16 \<Rightarrow> u8 list option \<Rightarrow> u32 \<Rightarrow> machine \<Rightarrow> radio_error \<times> machine" where
  "radio_join_network nid key timeout_ms m =
     (let g = g_radio m in
      if \<not> initialized g then (RADIO_ERROR_INIT, m)
      else if key = None then (RADIO_ERROR_INVALID_PARAM, m)
      else if power_state g = RADIO_POWER_OFF then (RADIO_ERROR_POWER_FAILURE, m)
      else
        let (r, m1) = rand m in
        if r mod 100 < 10 then (RADIO_ERROR_TIMEOUT, m1)
        else
          let (r1, m2) = rand m1;
              (rssi, m3) = simulate_rssi m2;
              (r3, m4) = rand m3;
              (r5, m5) = rand m4;
              ni = (network_info g)
                     \<lparr>network_id := nid, connected_devices := of_nat (r1 mod 10 + 1),
                      signal_strength := rssi, link_quality := of_nat (r3 mod 30 + 70),
                      uptime_seconds := 0, is_gateway := False,
                      hop_count := of_nat (r5 mod 5 + 1)\<rparr>
          in (RADIO_OK, m5\<lparr>g_radio := g\<lparr>network_info := ni, connected_to_network := True\<rparr>\<rparr>))"

definition radio_leave_network :: "machine \<Rightarrow> radio_error \<times> machine" where
  "radio_leave_network m =
     (let g = g_radio m in
      if \<not> initialized g then (RADIO_ERROR_INIT, m)
      else
        (RADIO_OK,
         m\<lparr>g_radio :=
              g\<lparr>connected_to_network := False,
                network_info := (network_info g)\<lparr>hop_count := 255, link_quality := 0\<rparr>\<rparr>\<rparr>))"

definition radio_get_network_info ::
  "bool \<Rightarrow> machine \<Rightarrow> radio_error \<times> radio_network_info option \<times> machine" where
  "radio_get_network_info out_ptr m =
     (let g = g_radio m in
      if \<not> initialized g then (RADIO_ERROR_INIT, None, m)
      else if \<not> out_ptr then (RADIO_ERROR_INVALID_PARAM, None, m)
      else if \<not> connected_to_network g then (RADIO_ERROR_NOT_CONNECTED, None, m)
      else
        let (rssi, m1) = simulate_rssi m;
            (now, m2) = get_current_time_ms m1;
            ni = (network_info g)
                   \<lparr>signal_strength := rssi,
                    uptime_seconds := (now - last_activity_time g) div 1000\<rparr>
        in (RADIO_OK, Some ni, m2\<lparr>g_radio := g\<lparr>network_info := ni\<rparr>\<rparr>))"

definition radio_measure_rssi :: "bool \<Rightarrow> machine \<Rightarrow> radio_error \<times> u8 option \<times> machine" where
  "radio_measure_rssi out_ptr m =
     (let g = g_radio m in
      if \<not> initialized g then (RADIO_ERROR_INIT, None, m)
      else if \<not> out_ptr then (RADIO_ERROR_INVALID_PARAM, None, m)
      else if power_state g = RADIO_POWER_OFF then (RADIO_ERROR_POWER_FAILURE, None, m)
      else
        let (rssi, m1) = simulate_rssi m
        in (RADIO_OK, Some rssi, m1\<lparr>g_radio := g\<lparr>stats := (stats g)\<lparr>last_rssi := rssi\<rparr>\<rparr>\<rparr>))"

definition radio_get_channel_utilization ::
  "bool \<Rightarrow> machine \<Rightarrow> radio_error \<times> u8 option \<times> machine" where
  "radio_get_channel_utilization out_ptr m =
     (let g = g_radio m in
      if \<not> initialized g then (RADIO_ERROR_INIT, None, m)
      else if \<not> out_ptr then (RADIO_ERROR_INVALID_PARAM, None, m)
      else if power_state g = RADIO_POWER_OFF then (RADIO_ERROR_POWER_FAILURE, None, m)
      else
        let (u, m1) = simulate_channel_utilization m
        in (RADIO_OK, Some u,
            m1\<lparr>g_radio := g\<lparr>stats := (stats g)\<lparr>channel_utilization := u\<rparr>\<rparr>\<rparr>))"

definition radio_get_statistics ::
  "bool \<Rightarrow> machine \<Rightarrow> radio_error \<times> radio_stats option \<times> machine" where
  "radio_get_statistics out_ptr m =
     (let g = g_radio m in
      if \<not> initialized g then (RADIO_ERROR_INIT, None, m)
      else if \<not> out_ptr then (RADIO_ERROR_INVALID_PARAM, None, m)
      else
        let (rssi, m1) = simulate_rssi m;
            (u, m2) = simulate_channel_utilization m1;
            (now, m3) = get_current_time_ms m2;
            elapsed_ms = now - last_activity_time g;
            st = (stats g)
                   \<lparr>last_rssi := rssi, channel_utilization := u,
                    power_consumption_mw :=
                      radio_estimate_power_consumption (power_state g) elapsed_ms div 1000\<rparr>
        in (RADIO_OK, Some st, m3\<lparr>g_radio := g\<lparr>stats := st\<rparr>\<rparr>))"

definition radio_reset_statistics :: "machine \<Rightarrow> radio_error \<times> machine" where
  "radio_reset_statistics m =
     (let g = g_radio m in
      if \<not> initialized g then (RADIO_ERROR_INIT, m)
      else
        let (rssi, m1) = simulate_rssi m
        in (RADIO_OK, m1\<lparr>g_radio := g\<lparr>stats := zero_stats\<lparr>last_rssi := rssi\<rparr>\<rparr>\<rparr>))"

definition radio_self_test :: "bool \<Rightarrow> machine \<Rightarrow> radio_error \<times> u32 option \<times> machine" where
  "radio_self_test out_ptr m =
     (let g = g_radio m in
      if \<not> initialized g then (RADIO_ERROR_INIT, None, m)
      else if \<not> out_ptr then (RADIO_ERROR_INVALID_PARAM, None, m)
      else (RADIO_OK, Some 0xFFFFFFFF, m))"

text \<open>The string returned is what \<^verbatim>\<open>strncpy\<close> and the terminator leave in the buffer.\<close>

definition radio_get_firmware_version ::
  "bool \<Rightarrow> nat \<Rightarrow> machine \<Rightarrow> radio_error \<times> string option \<times> machine" where
  "radio_get_firmware_version out_ptr buffer_size m =
     (let g = g_radio m in
      if \<not> initialized g then (RADIO_ERROR_INIT, None, m)
      else if \<not> out_ptr \<or> buffer_size < 8 then (RADIO_ERROR_INVALID_PARAM, None, m)
      else
        let version = ''v2.1.4-sim'';
            len = length version;
            len = (if len \<ge> buffer_size then buffer_size - 1 else len)
        in (RADIO_OK, Some (take len version), m))"

definition radio_deinit :: "machine \<Rightarrow> radio_error \<times> machine" where
  "radio_deinit m =
     (let g = g_radio m in
      if \<not> initialized g then (RADIO_ERROR_INIT, m)
      else
        (RADIO_OK,
         m\<lparr>g_radio :=
              g\<lparr>power_state := RADIO_POWER_OFF, connected_to_network := False,
                rx_callback := None, event_callback := None, initialized := False\<rparr>\<rparr>))"

section \<open>Runs of the driver\<close>

text \<open>
  A run is a sequence of API calls and packet arrivals, from the program's start (the
  zeroed \<^verbatim>\<open>g_radio\<close>). \<open>Arrival\<close> is one call of \<^verbatim>\<open>simulate_packet_reception\<close>, the
  arrival hook. \<^verbatim>\<open>radio_get_error_string\<close> does not read or write the state and is
  not a step.
\<close>

datatype radio_call =
  Init "radio_config option"
  | Configure "radio_config option"
  | SetPowerState int
  | GetPowerState bool
  | SendPacket "radio_packet option"
  | SendPacketAsync "radio_packet option" bool
  | GetTxStatus u16 bool
  | ReceivePacket bool u32
  | SetRxCallback "nat option" nat
  | SetEventCallback "nat option" nat
  | ScanNetworks bool u8 bool u32
  | JoinNetwork u16 "u8 list option" u32
  | LeaveNetwork
  | GetNetworkInfo bool
  | MeasureRssi bool
  | GetChannelUtilization bool
  | GetStatistics bool
  | ResetStatistics
  | SelfTest bool
  | GetFirmwareVersion bool nat
  | Deinit
  | Arrival

fun step :: "radio_call \<Rightarrow> machine \<Rightarrow> machine" where
  "step (Init cfg) m = snd (radio_init cfg m)"
| "step (Configure cfg) m = snd (radio_configure cfg m)"
| "step (SetPowerState v) m = snd (radio_set_power_state v m)"
| "step (GetPowerState out_ptr) m = snd (snd (radio_get_power_state out_ptr m))"
| "step (SendPacket pkt) m = snd (radio_send_packet pkt m)"
| "step (SendPacketAsync pkt tx_id_ptr) m = snd (snd (radio_send_packet_async pkt tx_id_ptr m))"
| "step (GetTxStatus tx_id status_ptr) m = snd (snd (radio_get_tx_status tx_id status_ptr m))"
| "step (ReceivePacket packet_ptr timeout_ms) m =
     snd (snd (radio_receive_packet packet_ptr timeout_ms m))"
| "step (SetRxCallback callback user_data) m = snd (radio_set_rx_callback callback user_data m)"
| "step (SetEventCallback callback user_data) m =
     snd (radio_set_event_callback callback user_data m)"
| "step (ScanNetworks networks_ptr max_networks found_count_ptr scan_time_ms) m =
     snd (snd (radio_scan_networks networks_ptr max_networks found_count_ptr scan_time_ms m))"
| "step (JoinNetwork nid key timeout_ms) m = snd (radio_join_network nid key timeout_ms m)"
| "step LeaveNetwork m = snd (radio_leave_network m)"
| "step (GetNetworkInfo out_ptr) m = snd (snd (radio_get_network_info out_ptr m))"
| "step (MeasureRssi out_ptr) m = snd (snd (radio_measure_rssi out_ptr m))"
| "step (GetChannelUtilization out_ptr) m = snd (snd (radio_get_channel_utilization out_ptr m))"
| "step (GetStatistics out_ptr) m = snd (snd (radio_get_statistics out_ptr m))"
| "step ResetStatistics m = snd (radio_reset_statistics m)"
| "step (SelfTest out_ptr) m = snd (snd (radio_self_test out_ptr m))"
| "step (GetFirmwareVersion out_ptr buffer_size) m =
     snd (snd (radio_get_firmware_version out_ptr buffer_size m))"
| "step Deinit m = snd (radio_deinit m)"
| "step Arrival m = simulate_packet_reception m"

fun exec :: "radio_call list \<Rightarrow> machine \<Rightarrow> machine" where
  "exec [] m = m"
| "exec (c # cs) m = exec cs (step c m)"

section \<open>Properties: auxiliary definitions\<close>

text \<open>
  The receive-buffer invariant: the array has its 32 slots, both indices are below 32,
  the count is at most 32, and the count is congruent modulo 32 to head minus tail.
\<close>

definition rx_inv :: "radio_state \<Rightarrow> bool" where
  "rx_inv g \<longleftrightarrow>
     length (rx_buffer g) = 32
     \<and> unat (rx_buffer_count g) \<le> 32
     \<and> unat (rx_buffer_head g) < 32
     \<and> unat (rx_buffer_tail g) < 32
     \<and> int (unat (rx_buffer_count g)) mod 32
         = (int (unat (rx_buffer_head g)) - int (unat (rx_buffer_tail g))) mod 32"

text \<open>The bit count after the modulation factor, on unbounded naturals.\<close>

definition mod_bits :: "radio_modulation \<Rightarrow> nat \<Rightarrow> nat" where
  "mod_bits modul n =
     (case modul of
        RADIO_MODULATION_FSK \<Rightarrow> n
      | RADIO_MODULATION_GFSK \<Rightarrow> (n * 9) div 10
      | RADIO_MODULATION_LORA \<Rightarrow> (n * 3) div 2
      | RADIO_MODULATION_OOK \<Rightarrow> n * 2)"

text \<open>
  Concrete inputs. \<open>demo_config\<close> is the configuration of the integration example in
  \<^verbatim>\<open>src/main.c\<close> (channel 10, 50 kbps, GFSK, 3 retries, timeout 5000 ms).
  \<open>demo_machine v\<close> is the driver right after \<^verbatim>\<open>radio_init(&demo_config)\<close> at program
  start, in an environment where every \<^verbatim>\<open>rand()\<close> returns \<open>v\<close> and the clock reads 0.
  \<open>demo_packet n\<close> is a zeroed packet with \<^verbatim>\<open>payload_size = n\<close>.
\<close>

definition demo_config :: radio_config where
  "demo_config =
     \<lparr>frequency_hz = 868000000, channel = 10, tx_power = RADIO_TX_POWER_MEDIUM,
      data_rate = RADIO_DATA_RATE_50K, modulation = RADIO_MODULATION_GFSK,
      security = RADIO_SECURITY_AES128,
      network_key = replicate RADIO_NETWORK_KEY_SIZE 0,
      device_address = replicate RADIO_ADDRESS_SIZE 0,
      cfg_network_id = 0x1234, auto_ack = True, auto_retry = True, max_retries = 3,
      tx_timeout_ms = 5000\<rparr>"

definition rand_const :: "nat \<Rightarrow> nat \<Rightarrow> nat" where
  "rand_const v i = v"

definition clock_zero :: "nat \<Rightarrow> u32" where
  "clock_zero i = 0"

definition demo_machine :: "nat \<Rightarrow> machine" where
  "demo_machine v = snd (radio_init (Some demo_config) (boot (rand_const v) clock_zero))"

definition demo_packet :: "nat \<Rightarrow> radio_packet" where
  "demo_packet n = zero_packet\<lparr>payload_size := of_nat n\<rparr>"

text \<open>\<open>demo_machine 50\<close> powered off by \<^verbatim>\<open>radio_set_power_state(RADIO_POWER_OFF)\<close>.\<close>

definition off_machine :: machine where
  "off_machine = snd (radio_set_power_state 0 (demo_machine 50))"

text \<open>
  \<open>demo_machine 50\<close> with the sent counter at \<^verbatim>\<open>UINT32_MAX\<close>, the value it has after
  4294967295 accepted sends.
\<close>

definition wrap_machine :: machine where
  "wrap_machine =
     (demo_machine 50)
       \<lparr>g_radio := (g_radio (demo_machine 50))
          \<lparr>stats := (stats (g_radio (demo_machine 50)))\<lparr>packets_sent := 0xFFFFFFFF\<rparr>\<rparr>\<rparr>"

text \<open>Program start, \<^verbatim>\<open>radio_init\<close>, then 32 arrivals, every \<^verbatim>\<open>rand()\<close> returning 0.\<close>

definition full_machine :: machine where
  "full_machine =
     exec (Init (Some demo_config) # replicate 32 Arrival) (boot (rand_const 0) clock_zero)"


section \<open>Basic facts\<close>

lemmas env_defs = rand_def get_current_time_ms_def simulate_rssi_def
  simulate_channel_utilization_def

lemma demo_valid: "validate_config (Some demo_config)"
  by (simp add: validate_config_def demo_config_def RADIO_MAX_CHANNELS_def RADIO_MAX_RETRIES_def)

lemma demo_machine_g:
  "initialized (g_radio (demo_machine v))"
  "power_state (g_radio (demo_machine v)) = RADIO_POWER_IDLE"
  "rx_buffer_count (g_radio (demo_machine v)) = 0"
  "packets_sent (stats (g_radio (demo_machine v))) = 0"
  "next_tx_id (g_radio (demo_machine v)) = 1"
  "config (g_radio (demo_machine v)) = demo_config"
  "rand_src (demo_machine v) = rand_const v"
  "rand_pos (demo_machine v) = 2"
  by (simp_all add: demo_machine_def radio_init_def demo_valid env_defs Let_def boot_def
      zero_radio_def zero_stats_def split: prod.splits)

lemma demo_machine_rx:
  "rx_buffer_head (g_radio (demo_machine v)) = 0"
  "rx_buffer_tail (g_radio (demo_machine v)) = 0"
  "packets_received (stats (g_radio (demo_machine v))) = 0"
  by (simp_all add: demo_machine_def radio_init_def demo_valid env_defs Let_def boot_def
      zero_radio_def zero_stats_def split: prod.splits)

lemma demo_packet_size: "n < 256 \<Longrightarrow> unat (payload_size (demo_packet n)) = n"
  by (simp add: demo_packet_def unat_of_nat)

lemma off_machine_g:
  "initialized (g_radio off_machine)"
  "power_state (g_radio off_machine) = RADIO_POWER_OFF"
  by (simp_all add: off_machine_def radio_set_power_state_def demo_machine_g
      int_of_power_state_def power_state_of_int_def env_defs Let_def split: prod.splits)

lemma wrap_machine_g:
  "initialized (g_radio wrap_machine)"
  "power_state (g_radio wrap_machine) = RADIO_POWER_IDLE"
  "packets_sent (stats (g_radio wrap_machine)) = 0xFFFFFFFF"
  "rand_src wrap_machine (rand_pos wrap_machine) = 50"
  by (simp_all add: wrap_machine_def demo_machine_g rand_const_def)


lemma init_ok:
  assumes "validate_config (Some c)"
  shows "fst (radio_init (Some c) m) = RADIO_OK"
    and "initialized (g_radio (snd (radio_init (Some c) m)))"
    and "power_state (g_radio (snd (radio_init (Some c) m))) = RADIO_POWER_IDLE"
    and "config (g_radio (snd (radio_init (Some c) m))) = c"
    and "packets_sent (stats (g_radio (snd (radio_init (Some c) m)))) = 0"
    and "total_airtime_ms (stats (g_radio (snd (radio_init (Some c) m)))) = 0"
  using assms
  by (simp_all add: radio_init_def env_defs Let_def zero_radio_def zero_stats_def
      split: prod.splits)

text \<open>What an accepted \<^verbatim>\<open>radio_send_packet\<close> does: the outcome is the draw of \<^verbatim>\<open>rand()\<close>.\<close>

lemma send_accept:
  assumes "initialized (g_radio m)" and "power_state (g_radio m) \<noteq> RADIO_POWER_OFF"
    and "unat (payload_size p) \<le> 246"
  shows "fst (radio_send_packet (Some p) m)
           = (if rand_src m (rand_pos m) mod 100 < 5 then RADIO_ERROR_NO_ACK else RADIO_OK)"
    and "power_state (g_radio (snd (radio_send_packet (Some p) m))) = RADIO_POWER_IDLE"
    and "packets_sent (stats (g_radio (snd (radio_send_packet (Some p) m))))
           = packets_sent (stats (g_radio m)) + 1"
    and "total_airtime_ms (stats (g_radio (snd (radio_send_packet (Some p) m))))
           = total_airtime_ms (stats (g_radio m))
             + radio_calculate_airtime (payload_size p) (data_rate (config (g_radio m)))
                 (modulation (config (g_radio m))) div 1000"
  using assms
  by (simp_all add: radio_send_packet_def RADIO_MAX_PAYLOAD_SIZE_def env_defs Let_def
      split: prod.splits)

section \<open>Airtime\<close>

lemma airtime_demo:
  "radio_calculate_airtime 32 RADIO_DATA_RATE_50K RADIO_MODULATION_GFSK = 6900"
  by (simp add: radio_calculate_airtime_def bps_of_def apply_modulation_def)

lemma unat_total_bits:
  "unat (of_nat ((unat (p::u8) + 16) * 8) :: u32) = (unat p + 16) * 8"
proof -
  have "unat p < 256" using unsigned_less [of p, where ?'a = nat] by simp
  then have "(unat p + 16) * 8 < 2 ^ 32" by simp
  then show ?thesis unfolding unat_of_nat by simp
qed

text \<open>Up to 2096 bits (a payload of 246 bytes) no modulation factor overflows 32 bits.\<close>

lemma unat_apply_modulation:
  assumes "unat t \<le> 2096"
  shows "unat (apply_modulation md t) = mod_bits md (unat t)"
proof (cases md)
  case RADIO_MODULATION_FSK
  then show ?thesis by (simp add: apply_modulation_def mod_bits_def)
next
  case RADIO_MODULATION_GFSK
  have "unat (t * 9) = unat t * 9"
    using assms by (simp add: unat_mult_lem [THEN iffD1])
  then show ?thesis using RADIO_MODULATION_GFSK
    by (simp add: apply_modulation_def mod_bits_def unat_div)
next
  case RADIO_MODULATION_LORA
  have "unat (t * 3) = unat t * 3"
    using assms by (simp add: unat_mult_lem [THEN iffD1])
  then show ?thesis using RADIO_MODULATION_LORA
    by (simp add: apply_modulation_def mod_bits_def unat_div)
next
  case RADIO_MODULATION_OOK
  have "unat (t * 2) = unat t * 2"
    using assms by (simp add: unat_mult_lem [THEN iffD1])
  then show ?thesis using RADIO_MODULATION_OOK
    by (simp add: apply_modulation_def mod_bits_def)
qed

lemma mod_bits_le: "n \<le> 2096 \<Longrightarrow> mod_bits md n \<le> 4192"
  by (cases md) (simp_all add: mod_bits_def)

lemma mod_bits_mono: "a \<le> b \<Longrightarrow> mod_bits md a \<le> mod_bits md b"
  by (cases md) (simp_all add: mod_bits_def div_le_mono)

text \<open>
  For payloads of at most 246 bytes the 32-bit computation is the one on unbounded
  naturals: the largest product is \<open>4192 * 1000000\<close>, below \<open>2 ^ 32\<close>.
\<close>

lemma unat_airtime:
  assumes "unat p \<le> 246"
  shows "unat (radio_calculate_airtime p r md)
         = (mod_bits md ((unat p + 16) * 8) * 1000000) div unat (bps_of r)"
proof -
  let ?t = "of_nat ((unat p + 16) * 8) :: u32"
  have t: "unat ?t = (unat p + 16) * 8" by (rule unat_total_bits)
  have tle: "unat ?t \<le> 2096" using assms t by simp
  have am: "unat (apply_modulation md ?t) = mod_bits md ((unat p + 16) * 8)"
    using unat_apply_modulation [OF tle] t by simp
  have "mod_bits md ((unat p + 16) * 8) \<le> 4192"
    using mod_bits_le tle t by simp
  then have "unat (apply_modulation md ?t) * unat (1000000 :: u32) < 2 ^ 32"
    using am by simp
  then have "unat (apply_modulation md ?t * 1000000) = unat (apply_modulation md ?t) * 1000000"
    by (simp add: unat_mult_lem [THEN iffD1])
  then show ?thesis
    using am by (simp add: radio_calculate_airtime_def Let_def unat_div)
qed

section \<open>The receive buffer\<close>

text \<open>The helpers that draw from the environment leave \<^verbatim>\<open>g_radio\<close> alone.\<close>

lemma rand_bytes_g: "rand_bytes n m = (bs, m') \<Longrightarrow> g_radio m' = g_radio m"
  by (induction n arbitrary: m bs m') (auto simp: rand_def Let_def split: prod.splits)

lemma rand_bytes_env:
  "rand_bytes n m = (bs, m') \<Longrightarrow> rand_src m' = rand_src m"
  by (induction n arbitrary: m bs m') (auto simp: rand_def Let_def split: prod.splits)

lemma arrival_rand_src: "rand_src (simulate_packet_reception m) = rand_src m"
  by (auto simp: simulate_packet_reception_def rand_def get_current_time_ms_def Let_def
      split: prod.splits option.splits dest!: rand_bytes_env)

lemma scan_entries_g: "scan_entries k i m = (es, m') \<Longrightarrow> g_radio m' = g_radio m"
proof (induction k arbitrary: i m es m')
  case 0
  then show ?case by simp
next
  case (Suc k)
  then show ?case
    by (auto simp: env_defs Let_def split: prod.splits)
qed

text \<open>
  An arrival either leaves \<^verbatim>\<open>g_radio\<close> as it is (wrong power state, no packet drawn, or
  buffer full), or stores one packet at the head.
\<close>

lemma arrival_none:
  assumes "(power_state (g_radio m) \<noteq> RADIO_POWER_RX \<and> power_state (g_radio m) \<noteq> RADIO_POWER_IDLE)
           \<or> \<not> rand_src m (rand_pos m) mod 100 < 5 \<or> \<not> rx_buffer_count (g_radio m) < 32"
  shows "g_radio (simulate_packet_reception m) = g_radio m"
  using assms
  by (auto simp: simulate_packet_reception_def rand_def Let_def split: prod.splits)

lemma arrival_some:
  assumes "power_state (g_radio m) = RADIO_POWER_RX \<or> power_state (g_radio m) = RADIO_POWER_IDLE"
    and "rand_src m (rand_pos m) mod 100 < 5" and "rx_buffer_count (g_radio m) < 32"
  shows "rx_buffer_count (g_radio (simulate_packet_reception m)) = rx_buffer_count (g_radio m) + 1"
    and "rx_buffer_head (g_radio (simulate_packet_reception m))
           = of_nat ((unat (rx_buffer_head (g_radio m)) + 1) mod 32)"
    and "rx_buffer_tail (g_radio (simulate_packet_reception m)) = rx_buffer_tail (g_radio m)"
    and "length (rx_buffer (g_radio (simulate_packet_reception m))) = length (rx_buffer (g_radio m))"
    and "packets_received (stats (g_radio (simulate_packet_reception m)))
           = packets_received (stats (g_radio m)) + 1"
    and "power_state (g_radio (simulate_packet_reception m)) = power_state (g_radio m)"
    and "initialized (g_radio (simulate_packet_reception m)) = initialized (g_radio m)"
  using assms
  by (auto simp: simulate_packet_reception_def rand_def get_current_time_ms_def Let_def
      split: prod.splits option.splits)

text \<open>The packet an arrival stores in the slot at the head.\<close>

lemma unat_psize: "unat (of_nat (r mod 100 + 1) :: u8) = r mod 100 + 1"
proof -
  have "r mod 100 + 1 < 2 ^ 8"
    by (rule less_trans [of _ 101]) simp_all
  then show ?thesis unfolding unat_of_nat by simp
qed

lemma arrival_packet:
  assumes "power_state (g_radio m) = RADIO_POWER_RX \<or> power_state (g_radio m) = RADIO_POWER_IDLE"
    and "rand_src m (rand_pos m) mod 100 < 5" and "rx_buffer_count (g_radio m) < 32"
    and "unat (rx_buffer_head (g_radio m)) < length (rx_buffer (g_radio m))"
  shows "priority (rx_buffer (g_radio (simulate_packet_reception m)) ! unat (rx_buffer_head (g_radio m)))
           = RADIO_PRIORITY_NORMAL"
    and "destination (rx_buffer (g_radio (simulate_packet_reception m)) ! unat (rx_buffer_head (g_radio m)))
           = take RADIO_ADDRESS_SIZE (device_address (config (g_radio m)))"
    and "\<exists>r. payload_size (rx_buffer (g_radio (simulate_packet_reception m)) ! unat (rx_buffer_head (g_radio m)))
           = of_nat (r mod 100 + 1)"
  using assms
  by (auto simp: simulate_packet_reception_def rand_def get_current_time_ms_def Let_def
      split: prod.splits option.splits)

text \<open>The invariant holds at program start and every step keeps it.\<close>

lemma rx_inv_zero: "rx_inv zero_radio"
  by (simp add: rx_inv_def zero_radio_def)

lemma idx_step: "unat (of_nat ((unat (h::u8) + 1) mod 32) :: u8) = (unat h + 1) mod 32"
proof -
  have "(unat h + 1) mod 32 < 2 ^ 8"
    by (rule less_trans [of _ 32]) simp_all
  then show ?thesis unfolding unat_of_nat by simp
qed

lemma mod32_enq:
  assumes "int c mod 32 = (int h - int t) mod 32"
  shows "int (c + 1) mod 32 = (int ((h + 1) mod 32) - int t) mod 32"
proof -
  have "(int ((h + 1) mod 32) - int t) mod 32 = (int (h + 1) mod 32 - int t) mod 32"
    by (simp add: zmod_int)
  also have "\<dots> = (int (h + 1) - int t) mod 32" by (simp only: mod_diff_left_eq)
  also have "\<dots> = ((int h - int t) + 1) mod 32" by (simp add: algebra_simps)
  also have "\<dots> = ((int h - int t) mod 32 + 1) mod 32" by (simp only: mod_add_left_eq)
  also have "\<dots> = (int c mod 32 + 1) mod 32" using assms by simp
  also have "\<dots> = (int c + 1) mod 32" by (simp only: mod_add_left_eq)
  also have "\<dots> = int (c + 1) mod 32" by (simp add: algebra_simps)
  finally show ?thesis by simp
qed

lemma mod32_deq:
  assumes "int c mod 32 = (int h - int t) mod 32" and "0 < c"
  shows "int (c - 1) mod 32 = (int h - int ((t + 1) mod 32)) mod 32"
proof -
  have "(int h - int ((t + 1) mod 32)) mod 32 = (int h - int (t + 1) mod 32) mod 32"
    by (simp add: zmod_int)
  also have "\<dots> = (int h - int (t + 1)) mod 32" by (simp only: mod_diff_right_eq)
  also have "\<dots> = ((int h - int t) - 1) mod 32" by (simp add: algebra_simps)
  also have "\<dots> = ((int h - int t) mod 32 - 1) mod 32" by (simp only: mod_diff_left_eq)
  also have "\<dots> = (int c mod 32 - 1) mod 32" using assms by simp
  also have "\<dots> = (int c - 1) mod 32" by (simp only: mod_diff_left_eq)
  also have "\<dots> = int (c - 1) mod 32" using assms(2) by (simp add: of_nat_diff)
  finally show ?thesis by simp
qed

lemma arrival_inv:
  assumes "rx_inv (g_radio m)"
  shows "rx_inv (g_radio (simulate_packet_reception m))"
proof (cases "(power_state (g_radio m) = RADIO_POWER_RX \<or> power_state (g_radio m) = RADIO_POWER_IDLE)
    \<and> rand_src m (rand_pos m) mod 100 < 5 \<and> rx_buffer_count (g_radio m) < 32")
  case True
  then have p: "power_state (g_radio m) = RADIO_POWER_RX \<or> power_state (g_radio m) = RADIO_POWER_IDLE"
    and r: "rand_src m (rand_pos m) mod 100 < 5" and lt: "rx_buffer_count (g_radio m) < 32"
    by simp_all
  note a = arrival_some [OF p r lt]
  have c: "unat (rx_buffer_count (g_radio m)) < 32"
    using lt by (simp add: word_less_nat_alt)
  then have c1: "unat (rx_buffer_count (g_radio m) + 1) = unat (rx_buffer_count (g_radio m)) + 1"
    by (simp add: unat_add_lem [THEN iffD1])
  have len: "length (rx_buffer (g_radio m)) = 32"
    and tl: "unat (rx_buffer_tail (g_radio m)) < 32"
    and old: "int (unat (rx_buffer_count (g_radio m))) mod 32
         = (int (unat (rx_buffer_head (g_radio m)))
             - int (unat (rx_buffer_tail (g_radio m)))) mod 32"
    using assms by (simp_all add: rx_inv_def)
  have cnt': "unat (rx_buffer_count (g_radio m)) + 1 \<le> 32" using c by arith
  have hd': "(unat (rx_buffer_head (g_radio m)) + 1) mod 32 < 32" by simp
  have cong: "int (unat (rx_buffer_count (g_radio m)) + 1) mod 32
      = (int ((unat (rx_buffer_head (g_radio m)) + 1) mod 32)
          - int (unat (rx_buffer_tail (g_radio m)))) mod 32"
    by (rule mod32_enq [OF old])
  show ?thesis
    unfolding rx_inv_def a(1-4) idx_step c1
    by (intro conjI len cnt' hd' tl cong)
next
  case False
  then have "g_radio (simulate_packet_reception m) = g_radio m"
    by (intro arrival_none) blast
  then show ?thesis using assms by simp
qed

lemma dequeue_fields:
  "rx_buffer_count (g_radio (snd (snd (rx_dequeue m)))) = rx_buffer_count (g_radio m) - 1"
  "rx_buffer_head (g_radio (snd (snd (rx_dequeue m)))) = rx_buffer_head (g_radio m)"
  "rx_buffer_tail (g_radio (snd (snd (rx_dequeue m))))
     = of_nat ((unat (rx_buffer_tail (g_radio m)) + 1) mod 32)"
  "length (rx_buffer (g_radio (snd (snd (rx_dequeue m))))) = length (rx_buffer (g_radio m))"
  by (simp_all add: rx_dequeue_def Let_def)

lemma dequeue_inv:
  assumes "rx_inv (g_radio m)" and "0 < rx_buffer_count (g_radio m)"
  shows "rx_inv (g_radio (snd (snd (rx_dequeue m))))"
proof -
  have c: "0 < unat (rx_buffer_count (g_radio m))"
    using assms(2) by (simp add: word_less_nat_alt)
  then have c1: "unat (rx_buffer_count (g_radio m) - 1) = unat (rx_buffer_count (g_radio m)) - 1"
    by (simp add: unat_sub word_le_nat_alt)
  have len: "length (rx_buffer (g_radio m)) = 32"
    and cnt: "unat (rx_buffer_count (g_radio m)) \<le> 32"
    and hd: "unat (rx_buffer_head (g_radio m)) < 32"
    and old: "int (unat (rx_buffer_count (g_radio m))) mod 32
         = (int (unat (rx_buffer_head (g_radio m)))
             - int (unat (rx_buffer_tail (g_radio m)))) mod 32"
    using assms(1) by (simp_all add: rx_inv_def)
  have cnt': "unat (rx_buffer_count (g_radio m)) - 1 \<le> 32" using cnt by arith
  have tl': "(unat (rx_buffer_tail (g_radio m)) + 1) mod 32 < 32" by simp
  have cong: "int (unat (rx_buffer_count (g_radio m)) - 1) mod 32
      = (int (unat (rx_buffer_head (g_radio m)))
          - int ((unat (rx_buffer_tail (g_radio m)) + 1) mod 32)) mod 32"
    by (rule mod32_deq [OF old c])
  show ?thesis
    unfolding rx_inv_def dequeue_fields idx_step c1
    by (intro conjI len cnt' hd tl' cong)
qed

lemma receive_inv:
  assumes "rx_inv (g_radio m)"
  shows "rx_inv (g_radio (snd (snd (radio_receive_packet packet_ptr timeout_ms m))))"
proof -
  let ?m1 = "simulate_packet_reception m"
  let ?m2 = "simulate_packet_reception ?m1"
  have i1: "rx_inv (g_radio ?m1)" by (rule arrival_inv [OF assms])
  have i2: "rx_inv (g_radio ?m2)" by (rule arrival_inv [OF i1])
  show ?thesis
    using assms i1 i2 dequeue_inv [OF i1] dequeue_inv [OF i2]
    by (simp add: radio_receive_packet_def Let_def)
qed

lemma init_inv: "rx_inv (g_radio m) \<Longrightarrow> rx_inv (g_radio (snd (radio_init cfg m)))"
  by (simp add: radio_init_def env_defs Let_def rx_inv_def zero_radio_def
      split: option.splits prod.splits)

lemma step_inv:
  assumes "rx_inv (g_radio m)"
  shows "rx_inv (g_radio (step c m))"
proof (cases c)
  case (Init cfg)
  then show ?thesis using assms by (simp add: init_inv)
next
  case (Configure cfg)
  then show ?thesis using assms
    by (auto simp: radio_configure_def Let_def rx_inv_def split: option.splits)
next
  case (SetPowerState v)
  then show ?thesis using assms
    by (auto simp: radio_set_power_state_def env_defs Let_def rx_inv_def
        split: option.splits prod.splits radio_power_state.splits if_splits)
next
  case (GetPowerState p)
  then show ?thesis using assms by (simp add: radio_get_power_state_def Let_def)
next
  case (SendPacket pkt)
  then show ?thesis using assms
    by (auto simp: radio_send_packet_def env_defs Let_def rx_inv_def
        split: option.splits prod.splits)
next
  case (SendPacketAsync pkt p)
  then show ?thesis using assms
    by (auto simp: radio_send_packet_async_def Let_def rx_inv_def split: option.splits)
next
  case (GetTxStatus i p)
  then show ?thesis using assms by (simp add: radio_get_tx_status_def Let_def)
next
  case (ReceivePacket p t)
  then show ?thesis using assms by (simp add: receive_inv)
next
  case (SetRxCallback cb u)
  then show ?thesis using assms
    by (simp add: radio_set_rx_callback_def Let_def rx_inv_def)
next
  case (SetEventCallback cb u)
  then show ?thesis using assms
    by (simp add: radio_set_event_callback_def Let_def rx_inv_def)
next
  case (ScanNetworks p mx q t)
  then show ?thesis using assms
    by (auto simp: radio_scan_networks_def rand_def Let_def
        split: prod.splits dest!: scan_entries_g)
next
  case (JoinNetwork nid key t)
  then show ?thesis using assms
    by (auto simp: radio_join_network_def env_defs Let_def rx_inv_def split: prod.splits)
next
  case LeaveNetwork
  then show ?thesis using assms
    by (simp add: radio_leave_network_def Let_def rx_inv_def)
next
  case (GetNetworkInfo p)
  then show ?thesis using assms
    by (auto simp: radio_get_network_info_def env_defs Let_def rx_inv_def split: prod.splits)
next
  case (MeasureRssi p)
  then show ?thesis using assms
    by (auto simp: radio_measure_rssi_def env_defs Let_def rx_inv_def split: prod.splits)
next
  case (GetChannelUtilization p)
  then show ?thesis using assms
    by (auto simp: radio_get_channel_utilization_def env_defs Let_def rx_inv_def
        split: prod.splits)
next
  case (GetStatistics p)
  then show ?thesis using assms
    by (auto simp: radio_get_statistics_def env_defs Let_def rx_inv_def split: prod.splits)
next
  case ResetStatistics
  then show ?thesis using assms
    by (auto simp: radio_reset_statistics_def env_defs Let_def rx_inv_def split: prod.splits)
next
  case (SelfTest p)
  then show ?thesis using assms by (simp add: radio_self_test_def Let_def)
next
  case (GetFirmwareVersion p n)
  then show ?thesis using assms by (simp add: radio_get_firmware_version_def Let_def)
next
  case Deinit
  then show ?thesis using assms by (simp add: radio_deinit_def Let_def rx_inv_def)
next
  case Arrival
  then show ?thesis using assms by (simp add: arrival_inv)
qed

lemma exec_inv: "rx_inv (g_radio m) \<Longrightarrow> rx_inv (g_radio (exec cs m))"
  by (induction cs arbitrary: m) (simp_all add: step_inv)

lemma boot_inv: "rx_inv (g_radio (boot rs cs))"
  by (simp add: boot_def rx_inv_zero)

lemma demo_machine_cb:
  "rx_callback (g_radio (demo_machine v)) = None"
  "rx_inv (g_radio (demo_machine v))"
proof -
  show "rx_callback (g_radio (demo_machine v)) = None"
    by (simp add: demo_machine_def radio_init_def demo_valid env_defs Let_def boot_def
        zero_radio_def split: prod.splits)
  show "rx_inv (g_radio (demo_machine v))"
    unfolding demo_machine_def by (rule init_inv [OF boot_inv])
qed

lemma rx_inv_exec_boot: "rx_inv (g_radio (exec calls (boot rs cs)))"
  by (rule exec_inv [OF boot_inv])

lemma idx_diff_zero:
  assumes "(int h - int t) mod 32 = 0" and "h < 32" and "t < 32"
  shows "h = t"
proof -
  have "32 dvd (int h - int t)" using assms(1) by (simp add: dvd_eq_mod_eq_0)
  then obtain k where k: "int h - int t = 32 * k" by (auto simp: dvd_def)
  have "- 32 < int h - int t" "int h - int t < 32" using assms(2,3) by simp_all
  then have "k = 0" using k by arith
  then show ?thesis using k by simp
qed

lemma small_mod: "c < 32 \<Longrightarrow> int c mod 32 = int c"
  by simp

text \<open>Filling the buffer: \<open>n\<close> arrivals in a row, each drawing a packet.\<close>

lemma idx_add: "((h + 1) mod 32 + n) mod 32 = (h + Suc n) mod (32::nat)"
  by (simp add: mod_add_left_eq)

lemma arrivals_fill:
  assumes "rand_src m = rand_const 0" and "power_state (g_radio m) = RADIO_POWER_IDLE"
    and "unat (rx_buffer_count (g_radio m)) + n \<le> 32"
    and "unat (rx_buffer_head (g_radio m)) < 32"
  shows "unat (rx_buffer_count (g_radio (exec (replicate n Arrival) m)))
           = unat (rx_buffer_count (g_radio m)) + n
         \<and> unat (rx_buffer_head (g_radio (exec (replicate n Arrival) m)))
           = (unat (rx_buffer_head (g_radio m)) + n) mod 32
         \<and> rx_buffer_tail (g_radio (exec (replicate n Arrival) m)) = rx_buffer_tail (g_radio m)
         \<and> packets_received (stats (g_radio (exec (replicate n Arrival) m)))
           = packets_received (stats (g_radio m)) + of_nat n"
  using assms
proof (induction n arbitrary: m)
  case 0
  then show ?case by simp
next
  case (Suc n)
  let ?m1 = "simulate_packet_reception m"
  have p: "power_state (g_radio m) = RADIO_POWER_RX \<or> power_state (g_radio m) = RADIO_POWER_IDLE"
    using Suc.prems(2) by simp
  have r: "rand_src m (rand_pos m) mod 100 < 5"
    using Suc.prems(1) by (simp add: rand_const_def)
  have c: "unat (rx_buffer_count (g_radio m)) < 32" using Suc.prems(3) by arith
  then have lt: "rx_buffer_count (g_radio m) < 32" by (simp add: word_less_nat_alt)
  note a = arrival_some [OF p r lt]
  have c1: "unat (rx_buffer_count (g_radio ?m1)) = unat (rx_buffer_count (g_radio m)) + 1"
    unfolding a(1) using c by (simp add: unat_add_lem [THEN iffD1])
  have h1: "unat (rx_buffer_head (g_radio ?m1)) = (unat (rx_buffer_head (g_radio m)) + 1) mod 32"
    unfolding a(2) by (rule idx_step)
  have s1: "rand_src ?m1 = rand_const 0" using Suc.prems(1) by (simp add: arrival_rand_src)
  have p1: "power_state (g_radio ?m1) = RADIO_POWER_IDLE" using a(6) Suc.prems(2) by simp
  have b1: "unat (rx_buffer_count (g_radio ?m1)) + n \<le> 32" using c1 Suc.prems(3) by arith
  have hb: "unat (rx_buffer_head (g_radio ?m1)) < 32" unfolding h1 by simp
  note ih = Suc.IH [OF s1 p1 b1 hb]
  have e: "exec (replicate (Suc n) Arrival) m = exec (replicate n Arrival) ?m1" by simp
  have "unat (rx_buffer_count (g_radio (exec (replicate n Arrival) ?m1)))
          = unat (rx_buffer_count (g_radio m)) + Suc n"
    using ih c1 by simp
  moreover have "unat (rx_buffer_head (g_radio (exec (replicate n Arrival) ?m1)))
          = (unat (rx_buffer_head (g_radio m)) + Suc n) mod 32"
    using ih unfolding h1 idx_add by blast
  moreover have "rx_buffer_tail (g_radio (exec (replicate n Arrival) ?m1))
          = rx_buffer_tail (g_radio m)"
    using ih a(3) by simp
  moreover have "packets_received (stats (g_radio (exec (replicate n Arrival) ?m1)))
          = packets_received (stats (g_radio m)) + of_nat (Suc n)"
    using ih a(5) by simp
  ultimately show ?case unfolding e by blast
qed

lemma full_machine_g:
  "rx_buffer_count (g_radio full_machine) = 32"
  "rx_buffer_head (g_radio full_machine) = 0"
  "rx_buffer_tail (g_radio full_machine) = 0"
  "packets_received (stats (g_radio full_machine)) = 32"
proof -
  have e: "full_machine = exec (replicate 32 Arrival) (demo_machine 0)"
    by (simp add: full_machine_def demo_machine_def)
  have b: "unat (rx_buffer_count (g_radio (demo_machine 0))) + 32 \<le> 32"
    by (simp add: demo_machine_g)
  have h: "unat (rx_buffer_head (g_radio (demo_machine 0))) < 32"
    by (simp add: demo_machine_rx)
  note f = arrivals_fill [OF demo_machine_g(7) demo_machine_g(2) b h, folded e]
  have "unat (rx_buffer_count (g_radio full_machine)) = unat (32 :: u8)"
    using f by (simp add: demo_machine_g)
  then show "rx_buffer_count (g_radio full_machine) = 32"
    by (simp only: word_unat_eq_iff)
  have "unat (rx_buffer_head (g_radio full_machine)) = unat (0 :: u8)"
    using f by (simp add: demo_machine_rx)
  then show "rx_buffer_head (g_radio full_machine) = 0"
    by (simp only: word_unat_eq_iff)
  show "rx_buffer_tail (g_radio full_machine) = 0" using f by (simp add: demo_machine_rx)
  show "packets_received (stats (g_radio full_machine)) = 32"
    using f by (simp add: demo_machine_rx)
qed


section \<open>Claims\<close>

subsection \<open>C1: an accepted send returns to Idle and counts one packet\<close>

text \<open>
  Claim C1, as the code has it. For every packet with \<^verbatim>\<open>payload_size\<close> at most 246, when
  the driver is initialized and the power state is not Off, \<^verbatim>\<open>radio_send_packet\<close>
  returns \<^verbatim>\<open>RADIO_OK\<close> or \<^verbatim>\<open>RADIO_ERROR_NO_ACK\<close>, the power state afterwards is Idle,
  and \<^verbatim>\<open>packets_sent\<close> has been incremented once as a \<^verbatim>\<open>uint32_t\<close>: it is one greater
  modulo \<open>2 ^ 32\<close>, and exactly one greater whenever it was below 4294967295.
\<close>

theorem send_packet_idle_and_count:
  assumes "initialized (g_radio m)" and "power_state (g_radio m) \<noteq> RADIO_POWER_OFF"
    and "unat (payload_size p) \<le> 246"
  shows "(fst (radio_send_packet (Some p) m) = RADIO_OK
            \<or> fst (radio_send_packet (Some p) m) = RADIO_ERROR_NO_ACK)
         \<and> power_state (g_radio (snd (radio_send_packet (Some p) m))) = RADIO_POWER_IDLE
         \<and> packets_sent (stats (g_radio (snd (radio_send_packet (Some p) m))))
             = packets_sent (stats (g_radio m)) + 1
         \<and> (unat (packets_sent (stats (g_radio m))) < 4294967295 \<longrightarrow>
              unat (packets_sent (stats (g_radio (snd (radio_send_packet (Some p) m)))))
                = unat (packets_sent (stats (g_radio m))) + 1)"
proof -
  note s = send_accept [OF assms]
  have "unat (packets_sent (stats (g_radio m)) + 1) = unat (packets_sent (stats (g_radio m))) + 1"
    if "unat (packets_sent (stats (g_radio m))) < 4294967295"
    using that by (simp add: unat_add_lem [THEN iffD1])
  then show ?thesis using s by simp
qed

theorem send_packet_idle_and_count_witness:
  "initialized (g_radio (demo_machine 50))
   \<and> power_state (g_radio (demo_machine 50)) \<noteq> RADIO_POWER_OFF
   \<and> unat (payload_size (demo_packet 32)) \<le> 246
   \<and> fst (radio_send_packet (Some (demo_packet 32)) (demo_machine 50)) = RADIO_OK
   \<and> power_state (g_radio (snd (radio_send_packet (Some (demo_packet 32)) (demo_machine 50))))
       = RADIO_POWER_IDLE
   \<and> unat (packets_sent (stats (g_radio (snd (radio_send_packet (Some (demo_packet 32)) (demo_machine 50))))))
       = 1"
proof -
  have i: "initialized (g_radio (demo_machine 50))" by (rule demo_machine_g)
  have q: "power_state (g_radio (demo_machine 50)) \<noteq> RADIO_POWER_OFF" by (simp add: demo_machine_g)
  have p: "unat (payload_size (demo_packet 32)) \<le> 246" by (simp add: demo_packet_size)
  have r: "fst (radio_send_packet (Some (demo_packet 32)) (demo_machine 50)) = RADIO_OK"
    using send_accept(1) [OF i q p] by (simp add: demo_machine_g rand_const_def)
  show ?thesis
    using i q p r send_packet_idle_and_count [OF i q p] by (simp add: demo_machine_g)
qed

text \<open>
  The counter is not always one greater: with \<^verbatim>\<open>packets_sent\<close> at 4294967295 a
  successful send of a 32-byte payload leaves it at 0.
\<close>

theorem send_packet_count_wraps:
  "initialized (g_radio wrap_machine)
   \<and> power_state (g_radio wrap_machine) \<noteq> RADIO_POWER_OFF
   \<and> unat (payload_size (demo_packet 32)) \<le> 246
   \<and> fst (radio_send_packet (Some (demo_packet 32)) wrap_machine) = RADIO_OK
   \<and> unat (packets_sent (stats (g_radio wrap_machine))) = 4294967295
   \<and> unat (packets_sent (stats (g_radio (snd (radio_send_packet (Some (demo_packet 32)) wrap_machine)))))
       = 0"
proof -
  have i: "initialized (g_radio wrap_machine)" by (rule wrap_machine_g)
  have q: "power_state (g_radio wrap_machine) \<noteq> RADIO_POWER_OFF" by (simp add: wrap_machine_g)
  have p: "unat (payload_size (demo_packet 32)) \<le> 246" by (simp add: demo_packet_size)
  show ?thesis using i q p send_accept [OF i q p] by (simp add: wrap_machine_g)
qed

subsection \<open>C2: power state transitions\<close>

text \<open>
  Claim C2. For every initialized state and each of the six power states \<open>ps\<close> requested:
  a request for Rx or Tx while the current state is Off fails with
  \<^verbatim>\<open>RADIO_ERROR_CONFIG\<close> and changes nothing; a request for Off succeeds, sets the power
  state to Off and clears \<^verbatim>\<open>connected_to_network\<close>; every other request succeeds and
  sets the power state to \<open>ps\<close>.
\<close>

theorem set_power_state_transitions:
  assumes "initialized (g_radio m)"
  shows "((ps = RADIO_POWER_RX \<or> ps = RADIO_POWER_TX) \<and> power_state (g_radio m) = RADIO_POWER_OFF
            \<longrightarrow> radio_set_power_state (int_of_power_state ps) m = (RADIO_ERROR_CONFIG, m))
         \<and> (ps = RADIO_POWER_OFF
            \<longrightarrow> fst (radio_set_power_state (int_of_power_state ps) m) = RADIO_OK
                \<and> power_state (g_radio (snd (radio_set_power_state (int_of_power_state ps) m)))
                    = RADIO_POWER_OFF
                \<and> \<not> connected_to_network
                      (g_radio (snd (radio_set_power_state (int_of_power_state ps) m))))
         \<and> (\<not> ((ps = RADIO_POWER_RX \<or> ps = RADIO_POWER_TX)
                 \<and> power_state (g_radio m) = RADIO_POWER_OFF)
            \<longrightarrow> fst (radio_set_power_state (int_of_power_state ps) m) = RADIO_OK
                \<and> power_state (g_radio (snd (radio_set_power_state (int_of_power_state ps) m)))
                    = ps)"
  using assms
  by (cases ps)
    (simp_all add: radio_set_power_state_def int_of_power_state_def power_state_of_int_def
      env_defs Let_def split: prod.splits)

theorem set_power_state_transitions_witness:
  "initialized (g_radio off_machine) \<and> power_state (g_radio off_machine) = RADIO_POWER_OFF
   \<and> radio_set_power_state (int_of_power_state RADIO_POWER_RX) off_machine
       = (RADIO_ERROR_CONFIG, off_machine)
   \<and> fst (radio_set_power_state (int_of_power_state RADIO_POWER_SLEEP) off_machine) = RADIO_OK
   \<and> power_state (g_radio (snd (radio_set_power_state (int_of_power_state RADIO_POWER_SLEEP) off_machine)))
       = RADIO_POWER_SLEEP
   \<and> initialized (g_radio (demo_machine 50))
   \<and> fst (radio_set_power_state (int_of_power_state RADIO_POWER_OFF) (demo_machine 50)) = RADIO_OK
   \<and> power_state (g_radio (snd (radio_set_power_state (int_of_power_state RADIO_POWER_OFF) (demo_machine 50))))
       = RADIO_POWER_OFF"
proof -
  have i: "initialized (g_radio off_machine)" by (rule off_machine_g)
  have j: "initialized (g_radio (demo_machine 50))" by (rule demo_machine_g)
  show ?thesis
    using i j set_power_state_transitions [OF i, of RADIO_POWER_RX]
      set_power_state_transitions [OF i, of RADIO_POWER_SLEEP]
      set_power_state_transitions [OF j, of RADIO_POWER_OFF]
    by (simp add: off_machine_g)
qed

subsection \<open>C3: the receive buffer\<close>

text \<open>
  Claim C3, as the code has it. In every state reached from program start by a sequence
  of API calls and arrivals: \<^verbatim>\<open>rx_buffer_count\<close> is at most 32; while fewer than 32
  packets are buffered it equals \<open>(rx_buffer_head - rx_buffer_tail) mod 32\<close>; when 32 are
  buffered, head and tail coincide (the difference is 0, and the count alone tells full
  from empty), and an arrival is dropped: it leaves the whole of \<^verbatim>\<open>g_radio\<close>, so the
  count and \<^verbatim>\<open>packets_received\<close>, as they are.
\<close>

theorem rx_buffer_invariant:
  assumes "m = exec calls (boot rs cs)"
  shows "unat (rx_buffer_count (g_radio m)) \<le> 32
         \<and> (unat (rx_buffer_count (g_radio m)) < 32 \<longrightarrow>
              int (unat (rx_buffer_count (g_radio m)))
                = (int (unat (rx_buffer_head (g_radio m)))
                    - int (unat (rx_buffer_tail (g_radio m)))) mod 32)
         \<and> (unat (rx_buffer_count (g_radio m)) = 32 \<longrightarrow>
              rx_buffer_head (g_radio m) = rx_buffer_tail (g_radio m)
              \<and> g_radio (simulate_packet_reception m) = g_radio m)"
proof -
  have inv: "rx_inv (g_radio m)" unfolding assms by (rule rx_inv_exec_boot)
  then have cnt: "unat (rx_buffer_count (g_radio m)) \<le> 32"
    and hd: "unat (rx_buffer_head (g_radio m)) < 32"
    and tl: "unat (rx_buffer_tail (g_radio m)) < 32"
    and cong: "int (unat (rx_buffer_count (g_radio m))) mod 32
         = (int (unat (rx_buffer_head (g_radio m)))
             - int (unat (rx_buffer_tail (g_radio m)))) mod 32"
    by (simp_all add: rx_inv_def)
  have part: "int (unat (rx_buffer_count (g_radio m)))
                = (int (unat (rx_buffer_head (g_radio m)))
                    - int (unat (rx_buffer_tail (g_radio m)))) mod 32"
    if "unat (rx_buffer_count (g_radio m)) < 32"
  proof -
    have "int (unat (rx_buffer_count (g_radio m))) mod 32
            = int (unat (rx_buffer_count (g_radio m)))"
      by (rule small_mod [OF that])
    then show ?thesis using cong by (rule subst)
  qed
  have full: "rx_buffer_head (g_radio m) = rx_buffer_tail (g_radio m)
              \<and> g_radio (simulate_packet_reception m) = g_radio m"
    if f: "unat (rx_buffer_count (g_radio m)) = 32"
  proof
    have "(int (unat (rx_buffer_head (g_radio m)))
             - int (unat (rx_buffer_tail (g_radio m)))) mod 32 = 0"
      using cong f by simp
    then have "unat (rx_buffer_head (g_radio m)) = unat (rx_buffer_tail (g_radio m))"
      using hd tl by (rule idx_diff_zero)
    then show "rx_buffer_head (g_radio m) = rx_buffer_tail (g_radio m)"
      by (simp only: word_unat_eq_iff)
    have "\<not> rx_buffer_count (g_radio m) < 32" using f by (simp add: word_less_nat_alt)
    then show "g_radio (simulate_packet_reception m) = g_radio m"
      by (intro arrival_none) blast
  qed
  show ?thesis using cnt part full by blast
qed

theorem rx_buffer_invariant_witness:
  "unat (rx_buffer_count (g_radio full_machine)) = 32
   \<and> rx_buffer_head (g_radio full_machine) = rx_buffer_tail (g_radio full_machine)
   \<and> g_radio (simulate_packet_reception full_machine) = g_radio full_machine
   \<and> packets_received (stats (g_radio (simulate_packet_reception full_machine))) = 32"
proof -
  have f: "unat (rx_buffer_count (g_radio full_machine)) = 32" by (simp add: full_machine_g)
  show ?thesis
    using f rx_buffer_invariant [OF full_machine_def] by (simp add: full_machine_g)
qed

text \<open>
  The count is not always \<open>(head - tail) mod 32\<close>: after \<^verbatim>\<open>radio_init\<close> and 32 arrivals
  the count is 32 while head and tail are both 0.
\<close>

theorem rx_buffer_full_count_differs:
  "full_machine
     = exec (Init (Some demo_config) # replicate 32 Arrival) (boot (rand_const 0) clock_zero)
   \<and> rx_buffer_count (g_radio full_machine) = 32
   \<and> rx_buffer_head (g_radio full_machine) = 0
   \<and> rx_buffer_tail (g_radio full_machine) = 0
   \<and> int (unat (rx_buffer_count (g_radio full_machine)))
       \<noteq> (int (unat (rx_buffer_head (g_radio full_machine)))
            - int (unat (rx_buffer_tail (g_radio full_machine)))) mod 32"
  by (simp add: full_machine_g) (simp add: full_machine_def)

subsection \<open>C4: oversized packets\<close>

text \<open>
  Claim C4. For every initialized state and every packet with \<^verbatim>\<open>payload_size\<close> greater
  than 246, \<^verbatim>\<open>radio_send_packet\<close> fails with \<^verbatim>\<open>RADIO_ERROR_PACKET_TOO_LARGE\<close> and nothing
  changes: the radio state (statistics and power state included) and the environment
  are the same before and after.
\<close>

theorem send_packet_oversized_rejected:
  assumes "initialized (g_radio m)" and "246 < unat (payload_size p)"
  shows "radio_send_packet (Some p) m = (RADIO_ERROR_PACKET_TOO_LARGE, m)"
  using assms by (simp add: radio_send_packet_def RADIO_MAX_PAYLOAD_SIZE_def)

theorem send_packet_oversized_rejected_witness:
  "initialized (g_radio (demo_machine 50)) \<and> 246 < unat (payload_size (demo_packet 250))
   \<and> radio_send_packet (Some (demo_packet 250)) (demo_machine 50)
       = (RADIO_ERROR_PACKET_TOO_LARGE, demo_machine 50)"
proof -
  have i: "initialized (g_radio (demo_machine 50))" by (rule demo_machine_g)
  have p: "246 < unat (payload_size (demo_packet 250))" by (simp add: demo_packet_size)
  show ?thesis using i p send_packet_oversized_rejected [OF i p] by simp
qed

subsection \<open>C5: transmission status\<close>

text \<open>
  Claim C5, as the code has it. For every initialized state and every 16-bit transaction
  id, issued by \<^verbatim>\<open>radio_send_packet_async\<close> or not, \<^verbatim>\<open>radio_get_tx_status\<close> with a
  non-null status pointer succeeds, reports the status \<^verbatim>\<open>RADIO_OK\<close> and changes nothing.
  The driver keeps no table of transactions, and \<^verbatim>\<open>radio_error_t\<close> has no not-found code.
\<close>

theorem get_tx_status_always_ok:
  assumes "initialized (g_radio m)"
  shows "radio_get_tx_status tx_id True m = (RADIO_OK, Some RADIO_OK, m)"
  using assms by (simp add: radio_get_tx_status_def)

theorem get_tx_status_always_ok_witness:
  "initialized (g_radio (demo_machine 50))
   \<and> radio_get_tx_status 7 True (demo_machine 50) = (RADIO_OK, Some RADIO_OK, demo_machine 50)"
proof -
  have i: "initialized (g_radio (demo_machine 50))" by (rule demo_machine_g)
  show ?thesis using i get_tx_status_always_ok [OF i, of 7] by simp
qed

text \<open>
  Right after \<^verbatim>\<open>radio_init\<close> no transaction id has been issued (the next one is 1), and
  a query for the id 7 does not fail: it returns \<^verbatim>\<open>RADIO_OK\<close> with status \<^verbatim>\<open>RADIO_OK\<close>.
\<close>

theorem get_tx_status_unissued_ok:
  "initialized (g_radio (demo_machine 50))
   \<and> next_tx_id (g_radio (demo_machine 50)) = 1
   \<and> fst (radio_get_tx_status 7 True (demo_machine 50)) = RADIO_OK
   \<and> fst (snd (radio_get_tx_status 7 True (demo_machine 50))) = Some RADIO_OK"
  by (simp add: radio_get_tx_status_def demo_machine_g)

subsection \<open>C6: deinitialisation\<close>




subsection \<open>C7: the airtime of the example scenario\<close>

text \<open>
  Claim C7. \<^verbatim>\<open>radio_calculate_airtime(32, 50 kbps, GFSK)\<close> returns the microsecond value of
  \<open>((32 + 16) * 8 * 0.9) / 50000\<close> seconds under the implementation's integer rounding:
  exactly 6900, which is \<open>((32 + 16) * 8 * 9 div 10) * 1000000 div 50000\<close> (the 345.6 bits
  are truncated to 345), 12 microseconds from the real value 6912. In the scenario (a
  configuration with channel 10, 3 retries, timeout 5000 ms, 50 kbps, GFSK),
  \<^verbatim>\<open>radio_init\<close> succeeds, and after one send of a 32-byte payload, whether it returns
  success or NoAcknowledgment, \<^verbatim>\<open>packets_sent\<close> is 1 (and \<^verbatim>\<open>total_airtime_ms\<close> is 6).
\<close>

theorem airtime_scenario:
  assumes "channel c = 10" and "max_retries c = 3" and "tx_timeout_ms c = 5000"
    and "data_rate c = RADIO_DATA_RATE_50K" and "modulation c = RADIO_MODULATION_GFSK"
    and "payload_size p = 32"
  shows "radio_calculate_airtime 32 RADIO_DATA_RATE_50K RADIO_MODULATION_GFSK = 6900
         \<and> unat (radio_calculate_airtime 32 RADIO_DATA_RATE_50K RADIO_MODULATION_GFSK)
             = ((32 + 16) * 8 * 9 div 10) * 1000000 div 50000
         \<and> \<bar>real (unat (radio_calculate_airtime 32 RADIO_DATA_RATE_50K RADIO_MODULATION_GFSK))
              - ((32 + 16) * 8 * 0.9) / 50000 * 1000000\<bar> = 12
         \<and> fst (radio_init (Some c) m) = RADIO_OK
         \<and> (fst (radio_send_packet (Some p) (snd (radio_init (Some c) m))) = RADIO_OK
            \<or> fst (radio_send_packet (Some p) (snd (radio_init (Some c) m))) = RADIO_ERROR_NO_ACK)
         \<and> packets_sent (stats (g_radio (snd (radio_send_packet (Some p) (snd (radio_init (Some c) m))))))
             = 1
         \<and> total_airtime_ms (stats (g_radio (snd (radio_send_packet (Some p) (snd (radio_init (Some c) m))))))
             = 6"
proof -
  have v: "validate_config (Some c)"
    using assms(1-3)
    by (simp add: validate_config_def RADIO_MAX_CHANNELS_def RADIO_MAX_RETRIES_def)
  note i = init_ok [OF v, of m]
  have q: "power_state (g_radio (snd (radio_init (Some c) m))) \<noteq> RADIO_POWER_OFF"
    using i(3) by simp
  have sz: "unat (payload_size p) \<le> 246" using assms(6) by simp
  note s = send_accept [OF i(2) q sz]
  show ?thesis
    using s i assms(4-6) by (simp add: airtime_demo)
qed

theorem airtime_scenario_witness:
  "channel demo_config = 10 \<and> max_retries demo_config = 3 \<and> tx_timeout_ms demo_config = 5000
   \<and> data_rate demo_config = RADIO_DATA_RATE_50K
   \<and> modulation demo_config = RADIO_MODULATION_GFSK
   \<and> payload_size (demo_packet 32) = 32
   \<and> fst (radio_init (Some demo_config) (boot (rand_const 50) clock_zero)) = RADIO_OK
   \<and> packets_sent (stats (g_radio (snd (radio_send_packet (Some (demo_packet 32)) (demo_machine 50)))))
       = 1"
proof -
  have h: "channel demo_config = 10" "max_retries demo_config = 3"
    "tx_timeout_ms demo_config = 5000" "data_rate demo_config = RADIO_DATA_RATE_50K"
    "modulation demo_config = RADIO_MODULATION_GFSK"
    by (simp_all add: demo_config_def)
  have p: "payload_size (demo_packet 32) = 32" by (simp add: demo_packet_def)
  show ?thesis
    using h p airtime_scenario [OF h p, of "boot (rand_const 50) clock_zero"]
    by (simp add: demo_machine_def)
qed

subsection \<open>C8: sending while powered off\<close>

text \<open>
  Claim C8, as the code has it. For every initialized state whose power state is Off and
  every packet: with \<^verbatim>\<open>payload_size\<close> at most 246, \<^verbatim>\<open>radio_send_packet\<close> fails with
  \<^verbatim>\<open>RADIO_ERROR_POWER_FAILURE\<close>, and so does \<^verbatim>\<open>radio_send_packet_async\<close> when its
  \<^verbatim>\<open>tx_id\<close> pointer is not null; with \<^verbatim>\<open>payload_size\<close> above 246 both fail with
  \<^verbatim>\<open>RADIO_ERROR_PACKET_TOO_LARGE\<close> instead, the size check coming before the power
  check; \<^verbatim>\<open>radio_send_packet_async\<close> with a null \<^verbatim>\<open>tx_id\<close> pointer fails with
  \<^verbatim>\<open>RADIO_ERROR_INVALID_PARAM\<close> whatever the size. In every case nothing changes.
\<close>

theorem send_power_off_fails:
  assumes "initialized (g_radio m)" and "power_state (g_radio m) = RADIO_POWER_OFF"
  shows "radio_send_packet (Some p) m
           = (if 246 < unat (payload_size p) then RADIO_ERROR_PACKET_TOO_LARGE
              else RADIO_ERROR_POWER_FAILURE, m)
         \<and> radio_send_packet_async (Some p) tx_id_ptr m
           = (if \<not> tx_id_ptr then RADIO_ERROR_INVALID_PARAM
              else if 246 < unat (payload_size p) then RADIO_ERROR_PACKET_TOO_LARGE
              else RADIO_ERROR_POWER_FAILURE, None, m)"
  using assms
  by (simp add: radio_send_packet_def radio_send_packet_async_def RADIO_MAX_PAYLOAD_SIZE_def)

theorem send_power_off_fails_witness:
  "initialized (g_radio off_machine) \<and> power_state (g_radio off_machine) = RADIO_POWER_OFF
   \<and> radio_send_packet (Some (demo_packet 32)) off_machine = (RADIO_ERROR_POWER_FAILURE, off_machine)
   \<and> radio_send_packet_async (Some (demo_packet 32)) True off_machine
       = (RADIO_ERROR_POWER_FAILURE, None, off_machine)
   \<and> radio_send_packet (Some (demo_packet 250)) off_machine
       = (RADIO_ERROR_PACKET_TOO_LARGE, off_machine)
   \<and> radio_send_packet_async (Some (demo_packet 250)) True off_machine
       = (RADIO_ERROR_PACKET_TOO_LARGE, None, off_machine)
   \<and> radio_send_packet_async (Some (demo_packet 32)) False off_machine
       = (RADIO_ERROR_INVALID_PARAM, None, off_machine)"
proof -
  have i: "initialized (g_radio off_machine)" by (rule off_machine_g)
  have q: "power_state (g_radio off_machine) = RADIO_POWER_OFF" by (rule off_machine_g)
  show ?thesis
    using i q send_power_off_fails [OF i q, of "demo_packet 32" True]
      send_power_off_fails [OF i q, of "demo_packet 250" True]
      send_power_off_fails [OF i q, of "demo_packet 32" False]
    by (simp add: demo_packet_size)
qed

text \<open>
  Powered off, a packet with \<^verbatim>\<open>payload_size\<close> 250 makes both functions fail with
  \<^verbatim>\<open>RADIO_ERROR_PACKET_TOO_LARGE\<close>, not with the power failure.
\<close>

theorem send_power_off_oversized:
  "initialized (g_radio off_machine) \<and> power_state (g_radio off_machine) = RADIO_POWER_OFF
   \<and> fst (radio_send_packet (Some (demo_packet 250)) off_machine) = RADIO_ERROR_PACKET_TOO_LARGE
   \<and> fst (radio_send_packet_async (Some (demo_packet 250)) True off_machine)
       = RADIO_ERROR_PACKET_TOO_LARGE"
  by (simp add: off_machine_g radio_send_packet_def radio_send_packet_async_def
      RADIO_MAX_PAYLOAD_SIZE_def demo_packet_size)

subsection \<open>C9: non-blocking receive on an empty buffer\<close>

text \<open>
  Claim C9, as the code has it. \<^verbatim>\<open>radio_receive_packet\<close> first runs the arrival
  simulation. For every initialized, powered-on state whose receive buffer is empty at
  the call, with \<^verbatim>\<open>timeout_ms\<close> equal to 0: if that simulation delivers nothing (the
  power state is neither Rx nor Idle, or the draw \<^verbatim>\<open>rand() % 100\<close> is not below 5), the
  call fails with \<^verbatim>\<open>RADIO_ERROR_BUFFER_EMPTY\<close>, returns no packet, leaves \<^verbatim>\<open>g_radio\<close>
  unchanged and makes no second attempt. If it delivers a packet (Rx or Idle, draw below
  5), no receive callback is registered and the buffer invariant \<open>rx_inv\<close> of the
  reachable states holds, the call succeeds and returns the packet that the arrival
  stored at the head (priority Normal, addressed to the configured device address,
  payload size between 1 and 100); afterwards the buffer is empty again, head equal to
  tail, and \<^verbatim>\<open>packets_received\<close> is one greater modulo \<open>2 ^ 32\<close>.
\<close>

theorem receive_nonblocking_empty:
  assumes "initialized (g_radio m)" and "power_state (g_radio m) \<noteq> RADIO_POWER_OFF"
    and "rx_buffer_count (g_radio m) = 0"
  shows "((power_state (g_radio m) \<noteq> RADIO_POWER_RX \<and> power_state (g_radio m) \<noteq> RADIO_POWER_IDLE)
            \<or> \<not> rand_src m (rand_pos m) mod 100 < 5
          \<longrightarrow> radio_receive_packet True 0 m
                = (RADIO_ERROR_BUFFER_EMPTY, None, simulate_packet_reception m)
              \<and> g_radio (simulate_packet_reception m) = g_radio m)
         \<and> ((power_state (g_radio m) = RADIO_POWER_RX \<or> power_state (g_radio m) = RADIO_POWER_IDLE)
              \<and> rand_src m (rand_pos m) mod 100 < 5
              \<and> rx_callback (g_radio m) = None \<and> rx_inv (g_radio m)
          \<longrightarrow> fst (radio_receive_packet True 0 m) = RADIO_OK
              \<and> fst (snd (radio_receive_packet True 0 m))
                  = Some (rx_buffer (g_radio (simulate_packet_reception m))
                            ! unat (rx_buffer_head (g_radio m)))
              \<and> (\<exists>pkt. fst (snd (radio_receive_packet True 0 m)) = Some pkt
                    \<and> priority pkt = RADIO_PRIORITY_NORMAL
                    \<and> destination pkt
                        = take RADIO_ADDRESS_SIZE (device_address (config (g_radio m)))
                    \<and> 1 \<le> unat (payload_size pkt) \<and> unat (payload_size pkt) \<le> 100)
              \<and> rx_buffer_count (g_radio (snd (snd (radio_receive_packet True 0 m)))) = 0
              \<and> rx_buffer_head (g_radio (snd (snd (radio_receive_packet True 0 m))))
                  = rx_buffer_tail (g_radio (snd (snd (radio_receive_packet True 0 m))))
              \<and> packets_received (stats (g_radio (snd (snd (radio_receive_packet True 0 m)))))
                  = packets_received (stats (g_radio m)) + 1)"
proof (intro conjI impI)
  assume a: "(power_state (g_radio m) \<noteq> RADIO_POWER_RX \<and> power_state (g_radio m) \<noteq> RADIO_POWER_IDLE)
            \<or> \<not> rand_src m (rand_pos m) mod 100 < 5"
  then have g: "g_radio (simulate_packet_reception m) = g_radio m"
    by (intro arrival_none) blast
  then show "g_radio (simulate_packet_reception m) = g_radio m" .
  show "radio_receive_packet True 0 m
          = (RADIO_ERROR_BUFFER_EMPTY, None, simulate_packet_reception m)"
    using assms g by (simp add: radio_receive_packet_def Let_def)
next
  assume a: "(power_state (g_radio m) = RADIO_POWER_RX \<or> power_state (g_radio m) = RADIO_POWER_IDLE)
              \<and> rand_src m (rand_pos m) mod 100 < 5
              \<and> rx_callback (g_radio m) = None \<and> rx_inv (g_radio m)"
  let ?m1 = "simulate_packet_reception m"
  let ?r = "radio_receive_packet True 0 m"
  let ?slot = "rx_buffer (g_radio ?m1) ! unat (rx_buffer_head (g_radio m))"
  have p: "power_state (g_radio m) = RADIO_POWER_RX \<or> power_state (g_radio m) = RADIO_POWER_IDLE"
    and r: "rand_src m (rand_pos m) mod 100 < 5" and inv: "rx_inv (g_radio m)"
    using a by simp_all
  have lt: "rx_buffer_count (g_radio m) < 32" using assms(3) by simp
  have len: "length (rx_buffer (g_radio m)) = 32"
    and hd: "unat (rx_buffer_head (g_radio m)) < 32"
    and tl: "unat (rx_buffer_tail (g_radio m)) < 32"
    and cong: "int (unat (rx_buffer_count (g_radio m))) mod 32
         = (int (unat (rx_buffer_head (g_radio m)))
             - int (unat (rx_buffer_tail (g_radio m)))) mod 32"
    using inv by (simp_all add: rx_inv_def)
  have "(int (unat (rx_buffer_head (g_radio m)))
           - int (unat (rx_buffer_tail (g_radio m)))) mod 32 = 0"
    using cong assms(3) by simp
  then have "unat (rx_buffer_head (g_radio m)) = unat (rx_buffer_tail (g_radio m))"
    using hd tl by (rule idx_diff_zero)
  then have ht: "rx_buffer_head (g_radio m) = rx_buffer_tail (g_radio m)"
    by (simp only: word_unat_eq_iff)
  note s = arrival_some [OF p r lt]
  have c1: "rx_buffer_count (g_radio ?m1) = 1" using s(1) assms(3) by simp
  have deq: "?r = rx_dequeue ?m1"
    using assms c1 by (simp add: radio_receive_packet_def Let_def)
  have hl: "unat (rx_buffer_head (g_radio m)) < length (rx_buffer (g_radio m))"
    using hd len by simp
  note k = arrival_packet [OF p r lt hl]
  show ok: "fst ?r = RADIO_OK" unfolding deq by (simp add: rx_dequeue_def Let_def)
  show pk: "fst (snd ?r) = Some ?slot"
    unfolding deq by (simp add: rx_dequeue_def Let_def s(3) ht)
  obtain q where q: "payload_size ?slot = of_nat (q mod 100 + 1)" using k(3) by blast
  have "unat (payload_size ?slot) = q mod 100 + 1" unfolding q by (rule unat_psize)
  then have "1 \<le> unat (payload_size ?slot)" "unat (payload_size ?slot) \<le> 100"
    by simp_all
  then show "\<exists>pkt. fst (snd ?r) = Some pkt
                    \<and> priority pkt = RADIO_PRIORITY_NORMAL
                    \<and> destination pkt
                        = take RADIO_ADDRESS_SIZE (device_address (config (g_radio m)))
                    \<and> 1 \<le> unat (payload_size pkt) \<and> unat (payload_size pkt) \<le> 100"
    using pk k(1,2) by blast
  show "rx_buffer_count (g_radio (snd (snd ?r))) = 0"
    unfolding deq dequeue_fields c1 by simp
  show "rx_buffer_head (g_radio (snd (snd ?r))) = rx_buffer_tail (g_radio (snd (snd ?r)))"
    unfolding deq dequeue_fields s(2) s(3) ht ..
  show "packets_received (stats (g_radio (snd (snd ?r)))) = packets_received (stats (g_radio m)) + 1"
    unfolding deq using s(5) by (simp add: rx_dequeue_def Let_def)
qed

theorem receive_nonblocking_empty_witness:
  "initialized (g_radio (demo_machine 50))
   \<and> power_state (g_radio (demo_machine 50)) \<noteq> RADIO_POWER_OFF
   \<and> rx_buffer_count (g_radio (demo_machine 50)) = 0
   \<and> \<not> rand_src (demo_machine 50) (rand_pos (demo_machine 50)) mod 100 < 5
   \<and> fst (radio_receive_packet True 0 (demo_machine 50)) = RADIO_ERROR_BUFFER_EMPTY
   \<and> g_radio (snd (snd (radio_receive_packet True 0 (demo_machine 50)))) = g_radio (demo_machine 50)
   \<and> initialized (g_radio (demo_machine 0))
   \<and> power_state (g_radio (demo_machine 0)) = RADIO_POWER_IDLE
   \<and> rx_buffer_count (g_radio (demo_machine 0)) = 0
   \<and> rand_src (demo_machine 0) (rand_pos (demo_machine 0)) mod 100 < 5
   \<and> rx_callback (g_radio (demo_machine 0)) = None \<and> rx_inv (g_radio (demo_machine 0))
   \<and> fst (snd (radio_receive_packet True 0 (demo_machine 0)))
       = Some (rx_buffer (g_radio (simulate_packet_reception (demo_machine 0)))
                 ! unat (rx_buffer_head (g_radio (demo_machine 0))))
   \<and> rx_buffer_count (g_radio (snd (snd (radio_receive_packet True 0 (demo_machine 0))))) = 0
   \<and> packets_received (stats (g_radio (snd (snd (radio_receive_packet True 0 (demo_machine 0))))))
       = 1"
proof -
  have i: "initialized (g_radio (demo_machine 50))" by (rule demo_machine_g)
  have q: "power_state (g_radio (demo_machine 50)) \<noteq> RADIO_POWER_OFF"
    by (simp add: demo_machine_g)
  have e: "rx_buffer_count (g_radio (demo_machine 50)) = 0" by (rule demo_machine_g)
  have r: "\<not> rand_src (demo_machine 50) (rand_pos (demo_machine 50)) mod 100 < 5"
    by (simp add: demo_machine_g rand_const_def)
  have i0: "initialized (g_radio (demo_machine 0))" by (rule demo_machine_g)
  have q0: "power_state (g_radio (demo_machine 0)) \<noteq> RADIO_POWER_OFF"
    by (simp add: demo_machine_g)
  have e0: "rx_buffer_count (g_radio (demo_machine 0)) = 0" by (rule demo_machine_g)
  have r0: "rand_src (demo_machine 0) (rand_pos (demo_machine 0)) mod 100 < 5"
    by (simp add: demo_machine_g rand_const_def)
  show ?thesis
    using i q e r i0 e0 r0 receive_nonblocking_empty [OF i q e]
      receive_nonblocking_empty [OF i0 q0 e0]
    by (simp add: demo_machine_g demo_machine_rx demo_machine_cb)
qed

text \<open>
  Right after \<^verbatim>\<open>radio_init\<close> (Idle, empty buffer), in an environment where \<^verbatim>\<open>rand()\<close>
  returns 0, a receive with timeout 0 succeeds: the packet arrives and is dequeued
  within the call.
\<close>

theorem receive_nonblocking_arrival:
  "initialized (g_radio (demo_machine 0))
   \<and> power_state (g_radio (demo_machine 0)) \<noteq> RADIO_POWER_OFF
   \<and> rx_buffer_count (g_radio (demo_machine 0)) = 0
   \<and> fst (radio_receive_packet True 0 (demo_machine 0)) = RADIO_OK"
proof -
  have lt: "rx_buffer_count (g_radio (demo_machine 0)) < 32" by (simp add: demo_machine_g)
  have p: "power_state (g_radio (demo_machine 0)) = RADIO_POWER_RX
           \<or> power_state (g_radio (demo_machine 0)) = RADIO_POWER_IDLE"
    by (simp add: demo_machine_g)
  have r: "rand_src (demo_machine 0) (rand_pos (demo_machine 0)) mod 100 < 5"
    by (simp add: demo_machine_g rand_const_def)
  have "rx_buffer_count (g_radio (simulate_packet_reception (demo_machine 0))) = 1"
    using arrival_some(1) [OF p r lt] by (simp add: demo_machine_g)
  then show ?thesis
    by (simp add: radio_receive_packet_def rx_dequeue_def Let_def demo_machine_g)
qed

subsection \<open>C10: airtime is monotone in the payload size\<close>

text \<open>
  Claim C10. For every data rate and modulation scheme and all payload sizes \<open>a \<le> b \<le> 246\<close>,
  \<^verbatim>\<open>radio_calculate_airtime\<close> of \<open>a\<close> is at most that of \<open>b\<close> (as unsigned 32-bit values).
\<close>

theorem airtime_monotone:
  assumes "a \<le> b" and "b \<le> 246"
  shows "radio_calculate_airtime a r md \<le> radio_calculate_airtime b r md"
proof -
  have ab: "unat a \<le> unat b" using assms(1) by (simp add: word_le_nat_alt)
  have b: "unat b \<le> 246" using assms(2) by (simp add: word_le_nat_alt)
  have a: "unat a \<le> 246" using ab b by simp
  have "mod_bits md ((unat a + 16) * 8) \<le> mod_bits md ((unat b + 16) * 8)"
    using ab by (intro mod_bits_mono) simp
  then have "(mod_bits md ((unat a + 16) * 8) * 1000000) div unat (bps_of r)
     \<le> (mod_bits md ((unat b + 16) * 8) * 1000000) div unat (bps_of r)"
    by (intro div_le_mono) simp
  then show ?thesis
    by (simp add: word_le_nat_alt unat_airtime [OF a] unat_airtime [OF b])
qed

theorem airtime_monotone_witness:
  "(32 :: u8) \<le> 246 \<and> (246 :: u8) \<le> 246
   \<and> radio_calculate_airtime 32 RADIO_DATA_RATE_1K RADIO_MODULATION_OOK
       \<le> radio_calculate_airtime 246 RADIO_DATA_RATE_1K RADIO_MODULATION_OOK"
proof -
  have h: "(32 :: u8) \<le> 246" "(246 :: u8) \<le> 246" by simp_all
  show ?thesis
    using h airtime_monotone [OF h, of RADIO_DATA_RATE_1K RADIO_MODULATION_OOK] by simp
qed

end
